theory Spec2Isabelle
  imports Main
begin

section \<open>The configuration loader of mesh-quai\<close>

text \<open>
  This theory embeds \<^verbatim>\<open>configuration.LoadConfiguration\<close>
  (\<^verbatim>\<open>configuration/configuration.go\<close>) and the two address helpers
  \<^verbatim>\<open>ethereum.ChecksumAddress\<close> and \<^verbatim>\<open>ethereum.MustChecksum\<close>.
  Go strings are byte sequences, so they are \<open>string\<close> (lists of 8-bit characters).
\<close>

subsection \<open>The environment\<close>

text \<open>
  The process environment is a finite map from names to values.
  \<^verbatim>\<open>os.Getenv\<close> returns the value of a variable, and the empty string when the
  variable is not set.
\<close>

type_synonym environ = "string \<rightharpoonup> string"

definition Getenv :: "environ \<Rightarrow> string \<Rightarrow> string" where
  "Getenv env key = (case env key of None \<Rightarrow> [] | Some v \<Rightarrow> v)"

subsection \<open>Errors\<close>

text \<open>
  \<^verbatim>\<open>strconv\<close> reports a failed conversion as a \<^verbatim>\<open>*strconv.NumError\<close>
  holding the name of the function, the input text and one of the two sentinel
  errors \<^verbatim>\<open>ErrSyntax\<close> and \<^verbatim>\<open>ErrRange\<close>.
\<close>

datatype strconv_Err = ErrSyntax | ErrRange

record NumError =
  Func :: string
  Num :: string
  Err :: strconv_Err

definition syntaxError :: "string \<Rightarrow> string \<Rightarrow> NumError" where
  "syntaxError fn str = \<lparr>Func = fn, Num = str, Err = ErrSyntax\<rparr>"

definition rangeError :: "string \<Rightarrow> string \<Rightarrow> NumError" where
  "rangeError fn str = \<lparr>Func = fn, Num = str, Err = ErrRange\<rparr>"

text \<open>
  The error values \<^verbatim>\<open>LoadConfiguration\<close> returns have one of two dynamic types:
  \<^item> \<open>errorString s\<close> is what \<^verbatim>\<open>errors.New(s)\<close> builds, and what
    \<^verbatim>\<open>fmt.Errorf\<close> builds when no operand was wrapped by a \<^verbatim>\<open>%w\<close> verb;
    its message is \<open>s\<close>.
  \<^item> \<open>wrapError w rest\<close> is what \<^verbatim>\<open>fmt.Errorf("%w...", w, ...)\<close> builds for
    a non-nil \<open>w\<close>: it wraps \<open>w\<close>, and its message is the message of \<open>w\<close>
    followed by \<open>rest\<close>, the text formatted after the \<^verbatim>\<open>%w\<close> verb.
\<close>

datatype error = errorString string | wrapError NumError string

definition errors_New :: "string \<Rightarrow> error" where
  "errors_New text = errorString text"

text \<open>
  The two shapes of \<^verbatim>\<open>fmt.Errorf\<close> calls in the source.
  \<open>Errorf_s v rest\<close> is \<^verbatim>\<open>fmt.Errorf("%s<rest>", v)\<close>: the verb \<^verbatim>\<open>%s\<close>
  writes the bytes of a string operand unchanged.
  \<open>Errorf_w err rest\<close> is \<^verbatim>\<open>fmt.Errorf("%w<rest>", err, ...)\<close> with the
  operands of \<open>rest\<close> already formatted. When \<open>err\<close> is nil the verb prints
  \<^verbatim>\<open>%!w(<nil>)\<close>, nothing is wrapped and the result is a plain error string.
\<close>

definition Errorf_s :: "string \<Rightarrow> string \<Rightarrow> error" where
  "Errorf_s v rest = errorString (v @ rest)"

definition Errorf_w :: "NumError option \<Rightarrow> string \<Rightarrow> error" where
  "Errorf_w err rest =
     (case err of
        None \<Rightarrow> errorString (''%!w(<nil>)'' @ rest)
      | Some w \<Rightarrow> wrapError w rest)"

text \<open>
  The message of an error (its \<^verbatim>\<open>Error()\<close> method). The message of a
  \<^verbatim>\<open>NumError\<close> quotes the input with \<^verbatim>\<open>strconv.Quote\<close>, which is taken as
  the parameter \<open>quote\<close>.
\<close>

fun Err_Error :: "strconv_Err \<Rightarrow> string" where
  "Err_Error ErrSyntax = ''invalid syntax''"
| "Err_Error ErrRange = ''value out of range''"

definition NumError_Error :: "(string \<Rightarrow> string) \<Rightarrow> NumError \<Rightarrow> string" where
  "NumError_Error quote e =
     ''strconv.'' @ Func e @ '': parsing '' @ quote (Num e) @ '': '' @ Err_Error (Err e)"

fun Error :: "(string \<Rightarrow> string) \<Rightarrow> error \<Rightarrow> string" where
  "Error quote (errorString s) = s"
| "Error quote (wrapError w rest) = NumError_Error quote w @ rest"

subsection \<open>\<^verbatim>\<open>strconv.ParseBool\<close>\<close>

text \<open>
  The standard library accepts exactly twelve tokens:
  \<^verbatim>\<open>
  func ParseBool(str string) (bool, error) {
      switch str {
      case "1", "t", "T", "true", "TRUE", "True":
          return true, nil
      case "0", "f", "F", "false", "FALSE", "False":
          return false, nil
      }
      return false, syntaxError("ParseBool", str)
  }
  \<close>
\<close>

definition ParseBool :: "string \<Rightarrow> bool \<times> NumError option" where
  "ParseBool str =
     (if str \<in> {''1'', ''t'', ''T'', ''true'', ''TRUE'', ''True''} then (True, None)
      else if str \<in> {''0'', ''f'', ''F'', ''false'', ''FALSE'', ''False''} then (False, None)
      else (False, Some (syntaxError ''ParseBool'' str)))"

subsection \<open>\<^verbatim>\<open>strconv.Atoi\<close>\<close>

text \<open>
  \<^verbatim>\<open>strconv.Atoi(s)\<close> is \<^verbatim>\<open>ParseInt(s, 10, 0)\<close> converted to \<^verbatim>\<open>int\<close>,
  with a fast path for short inputs. \<^verbatim>\<open>int\<close> has \<open>intSize\<close> bits; the model
  fixes the 64-bit targets.
\<close>

definition intSize :: nat where
  "intSize = 64"

definition fnAtoi :: string where
  "fnAtoi = ''Atoi''"

text \<open>
  The loop of the fast path: \<^verbatim>\<open>ch -= '0'\<close> is byte arithmetic and wraps, so
  every byte that is not a decimal digit ends above 9. At most 18 digits are read
  here, so \<^verbatim>\<open>n*10 + int(ch)\<close> stays below \<open>10 ^ 18\<close> and does not overflow.
  \<open>None\<close> is the syntax error.
\<close>

fun Atoi_fast_loop :: "int \<Rightarrow> string \<Rightarrow> int option" where
  "Atoi_fast_loop n [] = Some n"
| "Atoi_fast_loop n (c # cs) =
     (let ch = (of_char c + 256 - 48) mod 256 :: nat
      in if ch > 9 then None else Atoi_fast_loop (n * 10 + int ch) cs)"

text \<open>
  The loop of \<^verbatim>\<open>ParseUint\<close> at base 10 and \<open>bitSize\<close> 64, on \<^verbatim>\<open>uint64\<close>
  (naturals with the wrap-around written out). A byte outside \<^verbatim>\<open>'0'..'9'\<close> is a
  syntax error (letters are digits of value at least 10, which base 10 rejects, and
  the underscore is only allowed at base 0). The range error is raised at the first
  digit that overflows, before the rest of the text is looked at.
\<close>

definition maxUint64 :: nat where
  "maxUint64 = 2 ^ 64 - 1"

fun ParseUint_loop :: "nat \<Rightarrow> string \<Rightarrow> nat \<times> strconv_Err option" where
  "ParseUint_loop n [] = (n, None)"
| "ParseUint_loop n (c # cs) =
     (if \<not> (48 \<le> (of_char c :: nat) \<and> (of_char c :: nat) \<le> 57) then (0, Some ErrSyntax)
      else let d = (of_char c :: nat) - 48; cutoff = maxUint64 div 10 + 1; maxVal = maxUint64
           in if n \<ge> cutoff then (maxVal, Some ErrRange)
              else let n' = (n * 10) mod 2 ^ 64; n1 = (n' + d) mod 2 ^ 64
                   in if n1 < n' \<or> n1 > maxVal then (maxVal, Some ErrRange)
                      else ParseUint_loop n1 cs)"

definition ParseUint :: "string \<Rightarrow> nat \<times> strconv_Err option" where
  "ParseUint s = (if s = [] then (0, Some ErrSyntax) else ParseUint_loop 0 s)"

text \<open>
  \<^verbatim>\<open>ParseInt(s, 10, 0)\<close>: the sign is picked off, the rest is parsed unsigned,
  and the value is checked against the range of \<^verbatim>\<open>int\<close>. A range error comes with
  the nearest representable value.
\<close>

definition ParseInt :: "string \<Rightarrow> int \<times> strconv_Err option" where
  "ParseInt s =
     (if s = [] then (0, Some ErrSyntax)
      else
        let neg = (hd s = CHR ''-'');
            s' = (if hd s = CHR ''+'' \<or> hd s = CHR ''-'' then tl s else s);
            (un, err) = ParseUint s'
        in if err \<noteq> None \<and> err \<noteq> Some ErrRange then (0, err)
           else
             let cutoff = (2 :: nat) ^ (intSize - 1)
             in if \<not> neg \<and> un \<ge> cutoff then (int cutoff - 1, Some ErrRange)
                else if neg \<and> un > cutoff then (- int cutoff, Some ErrRange)
                else (if neg then - int un else int un, None))"

definition Atoi :: "string \<Rightarrow> int \<times> NumError option" where
  "Atoi s =
     (let sLen = length s
      in if intSize = 32 \<and> (0 < sLen \<and> sLen < 10) \<or> intSize = 64 \<and> (0 < sLen \<and> sLen < 19) then
           let s0 = s;
               s1 = (if hd s = CHR ''-'' \<or> hd s = CHR ''+'' then tl s else s)
           in if (hd s0 = CHR ''-'' \<or> hd s0 = CHR ''+'') \<and> length s1 < 1
              then (0, Some (syntaxError fnAtoi s0))
              else (case Atoi_fast_loop 0 s1 of
                      None \<Rightarrow> (0, Some (syntaxError fnAtoi s0))
                    | Some n \<Rightarrow> (if hd s0 = CHR ''-'' then - n else n, None))
         else
           (case ParseInt s of
              (i64, None) \<Rightarrow> (i64, None)
            | (i64, Some e) \<Rightarrow> (i64, Some \<lparr>Func = fnAtoi, Num = s, Err = e\<rparr>)))"

subsection \<open>The data model\<close>

text \<open>
  \<^verbatim>\<open>type Mode string\<close> with its two constants, the three network names and the
  names of the environment variables.
\<close>

type_synonym Mode = string

definition Online :: Mode where
  "Online = ''ONLINE''"

definition Offline :: Mode where
  "Offline = ''OFFLINE''"

definition Mainnet :: string where
  "Mainnet = ''MAINNET''"

definition Orchard :: string where
  "Orchard = ''ORCHARD''"

definition Local :: string where
  "Local = ''LOCAL''"

definition ModeEnv :: string where
  "ModeEnv = ''MODE''"

definition NetworkEnv :: string where
  "NetworkEnv = ''NETWORK''"

definition PortEnv :: string where
  "PortEnv = ''PORT''"

definition GoQuaiEnv :: string where
  "GoQuaiEnv = ''GOQUAI''"

definition DefaultGoQuaiURL :: string where
  "DefaultGoQuaiURL = ''http://localhost:8545''"

definition SkipGoQuaiAdminEnv :: string where
  "SkipGoQuaiAdminEnv = ''SKIP_GO_QUAI_ADMIN''"

text \<open>
  The identifiers of the Rosetta SDK (\<^verbatim>\<open>types.NetworkIdentifier\<close>,
  \<^verbatim>\<open>types.BlockIdentifier\<close>). The loader only ever builds a network identifier
  from a blockchain name and a network name; the optional sub-network pointer keeps
  its zero value nil. (The untyped metadata map of a sub-network identifier is not
  represented: no value of that type is built.)
\<close>

record SubNetworkIdentifier =
  SNI_Network :: string

record NetworkIdentifier =
  NI_Blockchain :: string
  NI_Network :: string
  NI_SubNetworkIdentifier :: "SubNetworkIdentifier option"

record BlockIdentifier =
  Index :: int
  Hash :: string

text \<open>
  The package-level values the loader reads from the packages \<^verbatim>\<open>ethereum\<close> and
  \<^verbatim>\<open>params\<close>. Their declarations are not part of the sources at hand, so they are
  a parameter of the model, one field for each name. Pointers
  (\<^verbatim>\<open>*types.BlockIdentifier\<close>, \<^verbatim>\<open>*params.ChainConfig\<close>) are options, \<open>None\<close>
  being nil; the chain configuration itself is opaque (\<open>'p\<close>).
\<close>

record 'p Statics =
  ethereum_Blockchain :: string
  ethereum_MainnetNetwork :: string
  ethereum_OrchardNetwork :: string
  ethereum_DevNetwork :: string
  ethereum_MainnetGenesisBlockIdentifier :: "BlockIdentifier option"
  ethereum_OrchardGenesisBlockIdentifier :: "BlockIdentifier option"
  ethereum_MainnetGoQuaiArguments :: string
  ethereum_OrchardGoQuaiArguments :: string
  ethereum_LocalGoQuaiArguments :: string
  params_ProgpowColosseumChainConfig :: "'p option"
  params_ProgpowOrchardChainConfig :: "'p option"
  params_ProgpowLocalChainConfig :: "'p option"

record 'p Configuration =
  Mode :: Mode
  Network :: "NetworkIdentifier option"
  GenesisBlockIdentifier :: "BlockIdentifier option"
  GoQuaiURL :: string
  RemoteGoQuai :: bool
  Port :: int
  GoQuaiArguments :: string
  SkipGoQuaiAdmin :: bool
  Params :: "'p option"

text \<open>\<^verbatim>\<open>&Configuration{}\<close>: every field at its zero value.\<close>

definition Configuration_zero :: "'p Configuration" where
  "Configuration_zero =
     \<lparr>Mode = [], Network = None, GenesisBlockIdentifier = None, GoQuaiURL = [],
      RemoteGoQuai = False, Port = 0, GoQuaiArguments = [], SkipGoQuaiAdmin = False,
      Params = None\<rparr>"

subsection \<open>\<^verbatim>\<open>LoadConfiguration\<close>\<close>

text \<open>
  The function returns the Go pair \<^verbatim>\<open>(*Configuration, error)\<close>, each component
  \<open>None\<close> when nil. Every \<^verbatim>\<open>return\<close> of the source is one branch; the two
  \<^verbatim>\<open>switch\<close> statements either update the configuration (\<open>Inr\<close>) or leave the
  function with an error (\<open>Inl\<close>).
\<close>

definition LoadConfiguration ::
  "'p Statics \<Rightarrow> environ \<Rightarrow> 'p Configuration option \<times> error option" where
  "LoadConfiguration K env =
     (let config = Configuration_zero;
          modeValue = Getenv env ModeEnv
      in case (if modeValue = Online then Inr (config\<lparr>Mode := Online\<rparr>)
               else if modeValue = Offline then Inr (config\<lparr>Mode := Offline\<rparr>)
               else if modeValue = [] then Inl (errors_New ''MODE must be populated'')
               else Inl (Errorf_s modeValue '' is not a valid mode'')) of
           Inl err \<Rightarrow> (None, Some err)
         | Inr config \<Rightarrow>
     (let networkValue = Getenv env NetworkEnv
      in case (if networkValue = Mainnet then
                 Inr (config
                   \<lparr>Network := Some \<lparr>NI_Blockchain = ethereum_Blockchain K,
                                     NI_Network = ethereum_MainnetNetwork K,
                                     NI_SubNetworkIdentifier = None\<rparr>,
                    GenesisBlockIdentifier := ethereum_MainnetGenesisBlockIdentifier K,
                    Params := params_ProgpowColosseumChainConfig K,
                    GoQuaiArguments := ethereum_MainnetGoQuaiArguments K\<rparr>)
               else if networkValue = Orchard then
                 Inr (config
                   \<lparr>Network := Some \<lparr>NI_Blockchain = ethereum_Blockchain K,
                                     NI_Network = ethereum_OrchardNetwork K,
                                     NI_SubNetworkIdentifier = None\<rparr>,
                    GenesisBlockIdentifier := ethereum_OrchardGenesisBlockIdentifier K,
                    Params := params_ProgpowOrchardChainConfig K,
                    GoQuaiArguments := ethereum_OrchardGoQuaiArguments K\<rparr>)
               else if networkValue = Local then
                 Inr (config
                   \<lparr>Network := Some \<lparr>NI_Blockchain = ethereum_Blockchain K,
                                     NI_Network = ethereum_DevNetwork K,
                                     NI_SubNetworkIdentifier = None\<rparr>,
                    GenesisBlockIdentifier := None,
                    Params := params_ProgpowLocalChainConfig K,
                    GoQuaiArguments := ethereum_LocalGoQuaiArguments K\<rparr>)
               else if networkValue = [] then Inl (errors_New ''NETWORK must be populated'')
               else Inl (Errorf_s networkValue '' is not a valid network'')) of
           Inl err \<Rightarrow> (None, Some err)
         | Inr config \<Rightarrow>
     (let config = config\<lparr>GoQuaiURL := DefaultGoQuaiURL\<rparr>;
          envGethURL = Getenv env GoQuaiEnv;
          config = (if length envGethURL > 0
                    then config\<lparr>RemoteGoQuai := True, GoQuaiURL := envGethURL\<rparr>
                    else config);
          config = config\<lparr>SkipGoQuaiAdmin := False\<rparr>;
          envSkipGethAdmin = Getenv env SkipGoQuaiAdminEnv
      in case (if length envSkipGethAdmin > 0 then
                 (case ParseBool envSkipGethAdmin of
                    (val, Some err) \<Rightarrow>
                      Inl (Errorf_w (Some err)
                             ('': unable to parse SKIP_GO_QUAI_ADMIN '' @ envSkipGethAdmin))
                  | (val, None) \<Rightarrow> Inr (config\<lparr>SkipGoQuaiAdmin := val\<rparr>))
               else Inr config) of
           Inl err \<Rightarrow> (None, Some err)
         | Inr config \<Rightarrow>
     (let portValue = Getenv env PortEnv
      in if length portValue = 0 then (None, Some (errors_New ''PORT must be populated''))
         else
           (let (port, err) = Atoi portValue
            in if err \<noteq> None \<or> length portValue = 0 \<or> port \<le> 0
               then (None, Some (Errorf_w err ('': unable to parse port '' @ portValue)))
               else (Some (config\<lparr>Port := port\<rparr>), None))))))"

subsection \<open>The address helpers\<close>

text \<open>
  \<^verbatim>\<open>common.NewMixedcaseAddressFromString\<close> and the method \<^verbatim>\<open>Address\<close> belong to
  go-quai; they are the parameters \<open>parse\<close> (returning the Go pair of a mixed-case
  address and an error, \<open>None\<close> when nil) and \<open>address_of\<close>. \<open>zero\<close> is
  \<^verbatim>\<open>common.Address{}\<close>.
\<close>

definition ChecksumAddress ::
  "(string \<Rightarrow> 'loc \<Rightarrow> 'm \<times> 'e option) \<Rightarrow> ('m \<Rightarrow> 'a) \<Rightarrow> 'a \<Rightarrow> string \<Rightarrow> 'loc \<Rightarrow> 'a \<times> bool" where
  "ChecksumAddress parse address_of zero address location =
     (case parse address location of
        (addr, Some err) \<Rightarrow> (zero, False)
      | (addr, None) \<Rightarrow> (address_of addr, True))"

text \<open>
  \<^verbatim>\<open>log.Fatalf\<close> prints and ends the process, so \<^verbatim>\<open>MustChecksum\<close> does not
  return in that branch: \<open>None\<close>.
\<close>

definition MustChecksum ::
  "(string \<Rightarrow> 'loc \<Rightarrow> 'm \<times> 'e option) \<Rightarrow> ('m \<Rightarrow> 'a) \<Rightarrow> 'a \<Rightarrow> string \<Rightarrow> 'loc \<Rightarrow> 'a option" where
  "MustChecksum parse address_of zero address location =
     (let (addr, ok) = ChecksumAddress parse address_of zero address location
      in if \<not> ok then None else Some addr)"

subsection \<open>What the specification says beyond the sources\<close>

text \<open>
  Modelled from the spec: the declarations of
  \<^verbatim>\<open>ethereum.MainnetGenesisBlockIdentifier\<close> and
  \<^verbatim>\<open>ethereum.OrchardGenesisBlockIdentifier\<close> are missing (the file of package
  \<^verbatim>\<open>ethereum\<close> that declares them is not among the sources). The specification says
  of them that MAINNET and ORCHARD have ``non-null identifiers distinct from each
  other''.
\<close>

definition genesis_identifiers_as_specified :: "'p Statics \<Rightarrow> bool" where
  "genesis_identifiers_as_specified K \<longleftrightarrow>
     ethereum_MainnetGenesisBlockIdentifier K \<noteq> None \<and>
     ethereum_OrchardGenesisBlockIdentifier K \<noteq> None \<and>
     ethereum_MainnetGenesisBlockIdentifier K \<noteq> ethereum_OrchardGenesisBlockIdentifier K"

text \<open>
  The specification's reading of the admin-skip flag, to be compared with
  \<open>ParseBool\<close>: the textual boolean forms \<^verbatim>\<open>true\<close> and \<^verbatim>\<open>false\<close>, recognised
  without regard to the case of the ASCII letters.
\<close>

definition spec_fold_case :: "string \<Rightarrow> string" where
  "spec_fold_case s =
     map (\<lambda>c. if 65 \<le> (of_char c :: nat) \<and> (of_char c :: nat) \<le> 90
              then char_of ((of_char c :: nat) + 32) else c) s"

definition spec_bool_token :: "string \<Rightarrow> bool option" where
  "spec_bool_token s =
     (if spec_fold_case s = ''true'' then Some True
      else if spec_fold_case s = ''false'' then Some False
      else None)"

text \<open>
  The reading of a port as a number, to be compared with \<open>Atoi\<close>: a decimal
  numeral is a non-empty text of the digits \<^verbatim>\<open>0\<close> to \<^verbatim>\<open>9\<close>, and denotes the
  number its digits spell in base 10.
\<close>

definition is_decimal :: "string \<Rightarrow> bool" where
  "is_decimal s \<longleftrightarrow> s \<noteq> [] \<and> list_all (\<lambda>c. 48 \<le> (of_char c :: nat) \<and> (of_char c :: nat) \<le> 57) s"

definition decimal_from :: "nat \<Rightarrow> string \<Rightarrow> nat" where
  "decimal_from n s = foldl (\<lambda>n c. n * 10 + ((of_char c :: nat) - 48)) n s"

definition decimal :: "string \<Rightarrow> nat" where
  "decimal s = decimal_from 0 s"

text \<open>
  A signed decimal numeral is a decimal numeral with an optional sign \<^verbatim>\<open>+\<close> or
  \<^verbatim>\<open>-\<close> in front, and denotes the integer so written.
\<close>

definition strip_sign :: "string \<Rightarrow> string" where
  "strip_sign s = (if s \<noteq> [] \<and> (hd s = CHR ''+'' \<or> hd s = CHR ''-'') then tl s else s)"

definition signed_decimal :: "string \<Rightarrow> bool" where
  "signed_decimal s \<longleftrightarrow> is_decimal (strip_sign s)"

definition signed_value :: "string \<Rightarrow> int" where
  "signed_value s =
     (if s \<noteq> [] \<and> hd s = CHR ''-'' then - int (decimal (strip_sign s))
      else int (decimal (strip_sign s)))"

subsection \<open>Concrete inputs\<close>

text \<open>
  An instance of the package-level values, to run the loader on concrete
  environments. Its strings and identifiers are placeholders, not the values the
  repository declares; the chain configurations are the numbers 1, 2 and 3.
\<close>

definition sample_Statics :: "nat Statics" where
  "sample_Statics =
     \<lparr>ethereum_Blockchain = ''Quai'',
      ethereum_MainnetNetwork = ''Mainnet'',
      ethereum_OrchardNetwork = ''Orchard'',
      ethereum_DevNetwork = ''Dev'',
      ethereum_MainnetGenesisBlockIdentifier = Some \<lparr>Index = 0, Hash = ''0xaa''\<rparr>,
      ethereum_OrchardGenesisBlockIdentifier = Some \<lparr>Index = 0, Hash = ''0xbb''\<rparr>,
      ethereum_MainnetGoQuaiArguments = ''--colosseum'',
      ethereum_OrchardGoQuaiArguments = ''--orchard'',
      ethereum_LocalGoQuaiArguments = ''--local'',
      params_ProgpowColosseumChainConfig = Some 1,
      params_ProgpowOrchardChainConfig = Some 2,
      params_ProgpowLocalChainConfig = Some 3\<rparr>"

text \<open>The environment of the end-to-end example: only the three required variables.\<close>

definition env_mainnet :: environ where
  "env_mainnet = [''MODE'' \<mapsto> ''ONLINE'', ''NETWORK'' \<mapsto> ''MAINNET'', ''PORT'' \<mapsto> ''1000'']"

section \<open>Properties\<close>

subsection \<open>Auxiliary facts\<close>

lemmas names_defs = Online_def Offline_def Mainnet_def Orchard_def Local_def

lemmas env_defs = ModeEnv_def NetworkEnv_def PortEnv_def GoQuaiEnv_def SkipGoQuaiAdminEnv_def

lemmas err_defs = errors_New_def Errorf_s_def Errorf_w_def

lemma Atoi_Nil: "Atoi [] = (0, Some (syntaxError fnAtoi []))"
  by (simp add: Atoi_def ParseInt_def intSize_def syntaxError_def)

lemma Atoi_1000: "Atoi ''1000'' = (1000, None)"
  by (simp add: Atoi_def intSize_def)

lemma sample_Statics_simps:
  "ethereum_Blockchain sample_Statics = ''Quai''"
  "ethereum_MainnetNetwork sample_Statics = ''Mainnet''"
  "ethereum_OrchardNetwork sample_Statics = ''Orchard''"
  "ethereum_DevNetwork sample_Statics = ''Dev''"
  "ethereum_MainnetGenesisBlockIdentifier sample_Statics = Some \<lparr>Index = 0, Hash = ''0xaa''\<rparr>"
  "ethereum_OrchardGenesisBlockIdentifier sample_Statics = Some \<lparr>Index = 0, Hash = ''0xbb''\<rparr>"
  "ethereum_MainnetGoQuaiArguments sample_Statics = ''--colosseum''"
  "ethereum_OrchardGoQuaiArguments sample_Statics = ''--orchard''"
  "ethereum_LocalGoQuaiArguments sample_Statics = ''--local''"
  "params_ProgpowColosseumChainConfig sample_Statics = Some 1"
  "params_ProgpowOrchardChainConfig sample_Statics = Some 2"
  "params_ProgpowLocalChainConfig sample_Statics = Some 3"
  by (simp_all add: sample_Statics_def)

lemma Getenv_env_mainnet:
  "Getenv env_mainnet ModeEnv = ''ONLINE''"
  "Getenv env_mainnet NetworkEnv = ''MAINNET''"
  "Getenv env_mainnet GoQuaiEnv = []"
  "Getenv env_mainnet SkipGoQuaiAdminEnv = []"
  "Getenv env_mainnet PortEnv = ''1000''"
  by (simp_all add: Getenv_def env_mainnet_def env_defs)

text \<open>The outcome of each stage, in the order of the source.\<close>

lemma Load_mode_empty:
  "Getenv env ModeEnv = [] \<Longrightarrow>
   LoadConfiguration K env = (None, Some (errorString ''MODE must be populated''))"
  by (simp add: LoadConfiguration_def names_defs err_defs)

lemma Load_mode_invalid:
  "Getenv env ModeEnv \<notin> {''ONLINE'', ''OFFLINE'', []} \<Longrightarrow>
   LoadConfiguration K env =
     (None, Some (errorString (Getenv env ModeEnv @ '' is not a valid mode'')))"
  by (simp add: LoadConfiguration_def names_defs err_defs)

lemma Load_network_empty:
  "Getenv env ModeEnv \<in> {''ONLINE'', ''OFFLINE''} \<Longrightarrow> Getenv env NetworkEnv = [] \<Longrightarrow>
   LoadConfiguration K env = (None, Some (errorString ''NETWORK must be populated''))"
  by (auto simp add: LoadConfiguration_def names_defs err_defs)

lemma Load_network_invalid:
  "Getenv env ModeEnv \<in> {''ONLINE'', ''OFFLINE''} \<Longrightarrow>
   Getenv env NetworkEnv \<notin> {''MAINNET'', ''ORCHARD'', ''LOCAL'', []} \<Longrightarrow>
   LoadConfiguration K env =
     (None, Some (errorString (Getenv env NetworkEnv @ '' is not a valid network'')))"
  by (auto simp add: LoadConfiguration_def names_defs err_defs)

lemma Load_skip_invalid:
  "Getenv env ModeEnv \<in> {''ONLINE'', ''OFFLINE''} \<Longrightarrow>
   Getenv env NetworkEnv \<in> {''MAINNET'', ''ORCHARD'', ''LOCAL''} \<Longrightarrow>
   Getenv env SkipGoQuaiAdminEnv \<noteq> [] \<Longrightarrow>
   ParseBool (Getenv env SkipGoQuaiAdminEnv) = (b, Some e) \<Longrightarrow>
   LoadConfiguration K env =
     (None, Some (wrapError e
        ('': unable to parse SKIP_GO_QUAI_ADMIN '' @ Getenv env SkipGoQuaiAdminEnv)))"
  by (elim insertE emptyE; simp add: LoadConfiguration_def names_defs err_defs Let_def)

lemma Load_port_empty:
  "Getenv env ModeEnv \<in> {''ONLINE'', ''OFFLINE''} \<Longrightarrow>
   Getenv env NetworkEnv \<in> {''MAINNET'', ''ORCHARD'', ''LOCAL''} \<Longrightarrow>
   Getenv env SkipGoQuaiAdminEnv = [] \<or>
     snd (ParseBool (Getenv env SkipGoQuaiAdminEnv)) = None \<Longrightarrow>
   Getenv env PortEnv = [] \<Longrightarrow>
   LoadConfiguration K env = (None, Some (errorString ''PORT must be populated''))"
  by (cases "ParseBool (Getenv env SkipGoQuaiAdminEnv)"; elim insertE emptyE disjE;
      simp add: LoadConfiguration_def names_defs err_defs Let_def)

lemma Load_port_invalid:
  "Getenv env ModeEnv \<in> {''ONLINE'', ''OFFLINE''} \<Longrightarrow>
   Getenv env NetworkEnv \<in> {''MAINNET'', ''ORCHARD'', ''LOCAL''} \<Longrightarrow>
   Getenv env SkipGoQuaiAdminEnv = [] \<or>
     snd (ParseBool (Getenv env SkipGoQuaiAdminEnv)) = None \<Longrightarrow>
   Getenv env PortEnv \<noteq> [] \<Longrightarrow>
   Atoi (Getenv env PortEnv) = (n, err) \<Longrightarrow> err \<noteq> None \<or> n \<le> 0 \<Longrightarrow>
   LoadConfiguration K env =
     (None, Some (Errorf_w err ('': unable to parse port '' @ Getenv env PortEnv)))"
  by (cases "ParseBool (Getenv env SkipGoQuaiAdminEnv)"; elim insertE emptyE disjE;
      simp add: LoadConfiguration_def names_defs errors_New_def Errorf_s_def Let_def)

lemma Load_success:
  "Getenv env ModeEnv \<in> {''ONLINE'', ''OFFLINE''} \<Longrightarrow>
   Getenv env NetworkEnv \<in> {''MAINNET'', ''ORCHARD'', ''LOCAL''} \<Longrightarrow>
   Getenv env SkipGoQuaiAdminEnv = [] \<or>
     snd (ParseBool (Getenv env SkipGoQuaiAdminEnv)) = None \<Longrightarrow>
   Atoi (Getenv env PortEnv) = (n, None) \<Longrightarrow> 0 < n \<Longrightarrow>
   LoadConfiguration K env =
     (Some \<lparr>Mode = Getenv env ModeEnv,
            Network = Some \<lparr>NI_Blockchain = ethereum_Blockchain K,
                             NI_Network =
                               (if Getenv env NetworkEnv = ''MAINNET''
                                then ethereum_MainnetNetwork K
                                else if Getenv env NetworkEnv = ''ORCHARD''
                                then ethereum_OrchardNetwork K
                                else ethereum_DevNetwork K),
                             NI_SubNetworkIdentifier = None\<rparr>,
            GenesisBlockIdentifier =
              (if Getenv env NetworkEnv = ''MAINNET''
               then ethereum_MainnetGenesisBlockIdentifier K
               else if Getenv env NetworkEnv = ''ORCHARD''
               then ethereum_OrchardGenesisBlockIdentifier K
               else None),
            GoQuaiURL =
              (if Getenv env GoQuaiEnv = [] then ''http://localhost:8545''
               else Getenv env GoQuaiEnv),
            RemoteGoQuai = (Getenv env GoQuaiEnv \<noteq> []),
            Port = n,
            GoQuaiArguments =
              (if Getenv env NetworkEnv = ''MAINNET''
               then ethereum_MainnetGoQuaiArguments K
               else if Getenv env NetworkEnv = ''ORCHARD''
               then ethereum_OrchardGoQuaiArguments K
               else ethereum_LocalGoQuaiArguments K),
            SkipGoQuaiAdmin =
              (Getenv env SkipGoQuaiAdminEnv \<noteq> [] \<and>
               fst (ParseBool (Getenv env SkipGoQuaiAdminEnv))),
            Params =
              (if Getenv env NetworkEnv = ''MAINNET''
               then params_ProgpowColosseumChainConfig K
               else if Getenv env NetworkEnv = ''ORCHARD''
               then params_ProgpowOrchardChainConfig K
               else params_ProgpowLocalChainConfig K)\<rparr>,
      None)"
  apply (cases "ParseBool (Getenv env SkipGoQuaiAdminEnv)")
  apply (cases "Getenv env PortEnv = []")
   apply (simp add: Atoi_Nil)
  apply (elim insertE emptyE disjE;
      simp add: LoadConfiguration_def names_defs err_defs Configuration_zero_def
        DefaultGoQuaiURL_def Let_def)
  done

text \<open>Every environment falls under one of the eight outcomes above.\<close>

lemma Load_cases:
  obtains
    (mode_empty) "Getenv env ModeEnv = []"
  | (mode_invalid) "Getenv env ModeEnv \<notin> {''ONLINE'', ''OFFLINE'', []}"
  | (network_empty) "Getenv env ModeEnv \<in> {''ONLINE'', ''OFFLINE''}"
      "Getenv env NetworkEnv = []"
  | (network_invalid) "Getenv env ModeEnv \<in> {''ONLINE'', ''OFFLINE''}"
      "Getenv env NetworkEnv \<notin> {''MAINNET'', ''ORCHARD'', ''LOCAL'', []}"
  | (skip_invalid) b e where "Getenv env ModeEnv \<in> {''ONLINE'', ''OFFLINE''}"
      "Getenv env NetworkEnv \<in> {''MAINNET'', ''ORCHARD'', ''LOCAL''}"
      "Getenv env SkipGoQuaiAdminEnv \<noteq> []"
      "ParseBool (Getenv env SkipGoQuaiAdminEnv) = (b, Some e)"
  | (port_empty) "Getenv env ModeEnv \<in> {''ONLINE'', ''OFFLINE''}"
      "Getenv env NetworkEnv \<in> {''MAINNET'', ''ORCHARD'', ''LOCAL''}"
      "Getenv env SkipGoQuaiAdminEnv = [] \<or>
         snd (ParseBool (Getenv env SkipGoQuaiAdminEnv)) = None"
      "Getenv env PortEnv = []"
  | (port_invalid) n err where "Getenv env ModeEnv \<in> {''ONLINE'', ''OFFLINE''}"
      "Getenv env NetworkEnv \<in> {''MAINNET'', ''ORCHARD'', ''LOCAL''}"
      "Getenv env SkipGoQuaiAdminEnv = [] \<or>
         snd (ParseBool (Getenv env SkipGoQuaiAdminEnv)) = None"
      "Getenv env PortEnv \<noteq> []"
      "Atoi (Getenv env PortEnv) = (n, err)" "err \<noteq> None \<or> n \<le> 0"
  | (success) n where "Getenv env ModeEnv \<in> {''ONLINE'', ''OFFLINE''}"
      "Getenv env NetworkEnv \<in> {''MAINNET'', ''ORCHARD'', ''LOCAL''}"
      "Getenv env SkipGoQuaiAdminEnv = [] \<or>
         snd (ParseBool (Getenv env SkipGoQuaiAdminEnv)) = None"
      "Getenv env PortEnv \<noteq> []"
      "Atoi (Getenv env PortEnv) = (n, None)" "0 < n"
proof -
  obtain b e where pb: "ParseBool (Getenv env SkipGoQuaiAdminEnv) = (b, e)"
    by (cases "ParseBool (Getenv env SkipGoQuaiAdminEnv)")
  obtain n err where at: "Atoi (Getenv env PortEnv) = (n, err)"
    by (cases "Atoi (Getenv env PortEnv)")
  show thesis
  proof (cases "Getenv env ModeEnv \<in> {''ONLINE'', ''OFFLINE''}")
    case False
    then show thesis using mode_empty mode_invalid by blast
  next
    case m: True
    show thesis
    proof (cases "Getenv env NetworkEnv \<in> {''MAINNET'', ''ORCHARD'', ''LOCAL''}")
      case False
      then show thesis using m network_empty network_invalid by blast
    next
      case nw: True
      show thesis
      proof (cases "Getenv env SkipGoQuaiAdminEnv \<noteq> [] \<and> e \<noteq> None")
        case True
        then show thesis using m nw pb skip_invalid by auto
      next
        case False
        then have sk: "Getenv env SkipGoQuaiAdminEnv = [] \<or>
            snd (ParseBool (Getenv env SkipGoQuaiAdminEnv)) = None"
          using pb by auto
        show thesis
        proof (cases "Getenv env PortEnv = []")
          case True
          then show thesis using m nw sk port_empty by blast
        next
          case pn: False
          show thesis
          proof (cases "err \<noteq> None \<or> n \<le> 0")
            case True
            then show thesis using m nw sk pn at port_invalid by blast
          next
            case False
            then have "Atoi (Getenv env PortEnv) = (n, None)" "0 < n"
              using at by auto
            then show thesis using m nw sk pn success by blast
          qed
        qed
      qed
    qed
  qed
qed

text \<open>A configuration is returned only in the last of them.\<close>

lemma Load_SomeE:
  assumes "LoadConfiguration K env = (Some c, None)"
  obtains n where "Getenv env ModeEnv \<in> {''ONLINE'', ''OFFLINE''}"
    and "Getenv env NetworkEnv \<in> {''MAINNET'', ''ORCHARD'', ''LOCAL''}"
    and "Getenv env SkipGoQuaiAdminEnv = [] \<or>
         snd (ParseBool (Getenv env SkipGoQuaiAdminEnv)) = None"
    and "Atoi (Getenv env PortEnv) = (n, None)"
    and "0 < n"
proof (cases env rule: Load_cases)
  case mode_empty
  then show ?thesis using assms by (simp add: Load_mode_empty)
next
  case mode_invalid
  then show ?thesis using assms by (simp add: Load_mode_invalid)
next
  case network_empty
  then show ?thesis using assms by (simp add: Load_network_empty)
next
  case network_invalid
  then show ?thesis using assms by (simp add: Load_network_invalid)
next
  case (skip_invalid b e)
  then show ?thesis using assms by (simp add: Load_skip_invalid)
next
  case port_empty
  then show ?thesis using assms by (simp add: Load_port_empty)
next
  case (port_invalid n err)
  then show ?thesis using assms by (simp add: Load_port_invalid)
next
  case (success n)
  then show ?thesis using that by blast
qed

subsection \<open>The admin-skip flag and the port, as texts\<close>

lemma ParseBool_ok_iff:
  "snd (ParseBool s) = None \<longleftrightarrow>
     s \<in> {''1'', ''t'', ''T'', ''true'', ''TRUE'', ''True'',
          ''0'', ''f'', ''F'', ''false'', ''FALSE'', ''False''}"
  by (simp add: ParseBool_def)

lemma ParseBool_fst_iff:
  "fst (ParseBool s) \<longleftrightarrow> s \<in> {''1'', ''t'', ''T'', ''true'', ''TRUE'', ''True''}"
  by (simp add: ParseBool_def)

lemma ParseBool_reject:
  "snd (ParseBool s) \<noteq> None \<Longrightarrow> ParseBool s = (False, Some (syntaxError ''ParseBool'' s))"
  by (simp add: ParseBool_def split: if_splits)

lemma Error_Errorf_w_port:
  "\<exists>pre. Error quote (Errorf_w err ('': unable to parse port '' @ p)) =
     pre @ ''unable to parse port '' @ p"
proof (cases err)
  case None
  show ?thesis
    by (rule exI [where x = "''%!w(<nil>): ''"]) (simp add: Errorf_w_def None)
next
  case (Some w)
  show ?thesis
    by (rule exI [where x = "NumError_Error quote w @ '': ''"]) (simp add: Errorf_w_def Some)
qed

text \<open>\<open>Atoi\<close> reads a decimal numeral that fits \<^verbatim>\<open>int\<close> as the number it denotes.\<close>

lemma decimal_from_Nil: "decimal_from n [] = n"
  by (simp add: decimal_from_def)

lemma decimal_from_Cons:
  "decimal_from n (c # cs) = decimal_from (n * 10 + ((of_char c :: nat) - 48)) cs"
  by (simp add: decimal_from_def)

lemma decimal_from_ge: "n \<le> decimal_from n s"
proof (induction s arbitrary: n)
  case Nil
  then show ?case by (simp add: decimal_from_Nil)
next
  case (Cons c cs)
  have "n \<le> n * 10 + ((of_char c :: nat) - 48)"
    by simp
  also have "\<dots> \<le> decimal_from (n * 10 + ((of_char c :: nat) - 48)) cs"
    by (rule Cons.IH)
  finally show ?case
    by (simp add: decimal_from_Cons)
qed

lemma byte_minus_zero_digit:
  fixes x :: nat
  assumes "48 \<le> x" and "x \<le> 57"
  shows "(x + 256 - 48) mod 256 = x - 48"
proof -
  from assms have "x + 256 - 48 = (x - 48) + 256"
    by linarith
  moreover from assms have "x - 48 < 256"
    by linarith
  ultimately show ?thesis
    by (simp only: mod_add_self2 mod_less)
qed

lemma Atoi_fast_loop_decimal:
  "list_all (\<lambda>c. 48 \<le> (of_char c :: nat) \<and> (of_char c :: nat) \<le> 57) s \<Longrightarrow>
   Atoi_fast_loop (int n) s = Some (int (decimal_from n s))"
proof (induction s arbitrary: n)
  case Nil
  then show ?case by (simp add: decimal_from_Nil)
next
  case (Cons c cs)
  then have d: "48 \<le> (of_char c :: nat)" "(of_char c :: nat) \<le> 57"
    and cs: "list_all (\<lambda>c. 48 \<le> (of_char c :: nat) \<and> (of_char c :: nat) \<le> 57) cs"
    by simp_all
  note ch = byte_minus_zero_digit [OF d]
  from d have le: "\<not> (of_char c :: nat) - 48 > 9"
    by linarith
  have "Atoi_fast_loop (int n) (c # cs) =
      Atoi_fast_loop (int n * 10 + int ((of_char c :: nat) - 48)) cs"
    by (simp only: Atoi_fast_loop.simps Let_def ch le if_False)
  also have "int n * 10 + int ((of_char c :: nat) - 48) =
      int (n * 10 + ((of_char c :: nat) - 48))"
    by simp
  finally show ?case
    by (simp only: Cons.IH [OF cs] decimal_from_Cons)
qed

lemma ParseUint_loop_decimal:
  "list_all (\<lambda>c. 48 \<le> (of_char c :: nat) \<and> (of_char c :: nat) \<le> 57) s \<Longrightarrow>
   decimal_from n s < 2 ^ 64 \<Longrightarrow>
   ParseUint_loop n s = (decimal_from n s, None)"
proof (induction s arbitrary: n)
  case Nil
  then show ?case by (simp add: decimal_from_Nil)
next
  case (Cons c cs)
  let ?d = "(of_char c :: nat) - 48"
  from Cons.prems have d: "48 \<le> (of_char c :: nat)" "(of_char c :: nat) \<le> 57"
    and cs: "list_all (\<lambda>c. 48 \<le> (of_char c :: nat) \<and> (of_char c :: nat) \<le> 57) cs"
    by simp_all
  from Cons.prems have b: "decimal_from (n * 10 + ?d) cs < 2 ^ 64"
    by (simp add: decimal_from_Cons)
  have "n * 10 + ?d \<le> decimal_from (n * 10 + ?d) cs"
    by (rule decimal_from_ge)
  with b have n1: "n * 10 + ?d < 2 ^ 64"
    by simp
  then have n10: "n * 10 < (2 :: nat) ^ 64"
    by simp
  then have cut: "\<not> n \<ge> maxUint64 div 10 + 1"
    by (simp add: maxUint64_def)
  have m1: "(n * 10) mod 2 ^ 64 = n * 10"
    using n10 by simp
  have m2: "(n * 10 + ?d) mod 2 ^ 64 = n * 10 + ?d"
    using n1 by simp
  have mx: "\<not> n * 10 + ?d > maxUint64"
    using n1 by (simp add: maxUint64_def)
  have lt: "\<not> n * 10 + ?d < n * 10"
    by simp
  have "ParseUint_loop n (c # cs) = ParseUint_loop (n * 10 + ?d) cs"
    by (simp only: ParseUint_loop.simps Let_def d cut m1 m2 lt mx simp_thms if_False)
  then show ?case
    by (simp add: Cons.IH [OF cs b] decimal_from_Cons)
qed

lemma Atoi_decimal:
  assumes "is_decimal s" and "decimal s < 2 ^ 63"
  shows "Atoi s = (int (decimal s), None)"
proof -
  from assms(1) have ne: "s \<noteq> []"
    and ds: "list_all (\<lambda>c. 48 \<le> (of_char c :: nat) \<and> (of_char c :: nat) \<le> 57) s"
    by (simp_all add: is_decimal_def)
  from ne ds have "48 \<le> (of_char (hd s) :: nat)"
    by (cases s) simp_all
  then have sign: "hd s \<noteq> CHR ''-''" "hd s \<noteq> CHR ''+''"
    by auto
  show ?thesis
  proof (cases "length s < 19")
    case True
    have "Atoi_fast_loop 0 s = Some (int (decimal s))"
      using Atoi_fast_loop_decimal [OF ds, of 0] by (simp add: decimal_def)
    then show ?thesis
      using True ne sign by (simp add: Atoi_def intSize_def)
  next
    case False
    from assms(2) have "decimal_from 0 s < 2 ^ 64"
      by (simp add: decimal_def)
    then have "ParseUint s = (decimal s, None)"
      using ne by (simp add: ParseUint_def ParseUint_loop_decimal [OF ds] decimal_def)
    then have "ParseInt s = (int (decimal s), None)"
      using ne sign assms(2) by (simp add: ParseInt_def intSize_def)
    then show ?thesis
      using False by (simp add: Atoi_def intSize_def)
  qed
qed

text \<open>
  Conversely, \<open>Atoi\<close> accepts nothing but signed decimal numerals that fit
  \<^verbatim>\<open>int\<close>: every other text is rejected.
\<close>

lemma decimal_from_bound:
  "list_all (\<lambda>c. 48 \<le> (of_char c :: nat) \<and> (of_char c :: nat) \<le> 57) s \<Longrightarrow>
   decimal_from n s < (n + 1) * 10 ^ length s"
proof (induction s arbitrary: n)
  case Nil
  then show ?case by (simp add: decimal_from_Nil)
next
  case (Cons c cs)
  let ?d = "(of_char c :: nat) - 48"
  from Cons.prems have "(of_char c :: nat) \<le> 57"
    and cs: "list_all (\<lambda>c. 48 \<le> (of_char c :: nat) \<and> (of_char c :: nat) \<le> 57) cs"
    by simp_all
  then have d: "?d \<le> 9"
    by linarith
  have "decimal_from (n * 10 + ?d) cs < (n * 10 + ?d + 1) * 10 ^ length cs"
    by (rule Cons.IH [OF cs])
  also have "\<dots> \<le> ((n + 1) * 10) * 10 ^ length cs"
    using d by (intro mult_right_mono) simp_all
  finally show ?case
    by (simp add: decimal_from_Cons algebra_simps)
qed

lemma byte_minus_zero_small:
  fixes x :: nat
  assumes "x < 256" and "\<not> (x + 256 - 48) mod 256 > 9"
  shows "48 \<le> x \<and> x \<le> 57"
proof (cases "x < 48")
  case True
  then have "x + 256 - 48 < 256"
    by linarith
  then have "(x + 256 - 48) mod 256 = x + 256 - 48"
    by (rule mod_less)
  with assms(2) True show ?thesis
    by linarith
next
  case False
  then have "48 \<le> x"
    by simp
  moreover have "x \<le> 57"
  proof (rule ccontr)
    assume "\<not> x \<le> 57"
    with assms(1) have "x + 256 - 48 = (x - 48) + 256" and "x - 48 < 256" and "9 < x - 48"
      by linarith+
    then have "(x + 256 - 48) mod 256 = x - 48" and "9 < x - 48"
      by (simp_all only: mod_add_self2 mod_less)
    with assms(2) show False
      by simp
  qed
  ultimately show ?thesis ..
qed

lemma Atoi_fast_loop_Some:
  "Atoi_fast_loop (int n) s = Some m \<Longrightarrow>
   list_all (\<lambda>c. 48 \<le> (of_char c :: nat) \<and> (of_char c :: nat) \<le> 57) s \<and>
   m = int (decimal_from n s)"
proof (induction s arbitrary: n)
  case Nil
  then show ?case by (simp add: decimal_from_Nil)
next
  case (Cons c cs)
  have small: "\<not> ((of_char c :: nat) + 256 - 48) mod 256 > 9"
  proof
    assume "((of_char c :: nat) + 256 - 48) mod 256 > 9"
    then have "Atoi_fast_loop (int n) (c # cs) = None"
      by (simp only: Atoi_fast_loop.simps Let_def if_True)
    with Cons.prems show False
      by simp
  qed
  have d: "48 \<le> (of_char c :: nat)" "(of_char c :: nat) \<le> 57"
    using byte_minus_zero_small [OF nat_of_char_less_256 small] by simp_all
  note ch = byte_minus_zero_digit [OF d]
  have "Atoi_fast_loop (int n) (c # cs) =
      Atoi_fast_loop (int n * 10 + int ((of_char c :: nat) - 48)) cs"
    using small by (simp only: Atoi_fast_loop.simps Let_def ch if_False)
  also have "int n * 10 + int ((of_char c :: nat) - 48) =
      int (n * 10 + ((of_char c :: nat) - 48))"
    by simp
  finally have "Atoi_fast_loop (int (n * 10 + ((of_char c :: nat) - 48))) cs = Some m"
    using Cons.prems by simp
  from Cons.IH [OF this] d show ?case
    by (simp add: decimal_from_Cons)
qed

lemma uint64_step:
  fixes n d :: nat
  assumes "\<not> n \<ge> maxUint64 div 10 + 1" and "d \<le> 9"
    and "\<not> (((n * 10) mod 2 ^ 64 + d) mod 2 ^ 64 < (n * 10) mod 2 ^ 64 \<or>
            ((n * 10) mod 2 ^ 64 + d) mod 2 ^ 64 > maxUint64)"
  shows "n * 10 + d < 2 ^ 64"
proof (rule ccontr)
  assume over: "\<not> n * 10 + d < 2 ^ 64"
  from assms(1) have n10: "n * 10 < (2 :: nat) ^ 64"
    by (simp add: maxUint64_def)
  then have m1: "(n * 10) mod 2 ^ 64 = n * 10"
    by simp
  from over have ge: "(2 :: nat) ^ 64 \<le> n * 10 + d"
    by simp
  have lt: "n * 10 + d - 2 ^ 64 < (2 :: nat) ^ 64"
    using n10 assms(2) by simp
  have "(n * 10 + d) mod 2 ^ 64 = (n * 10 + d - 2 ^ 64) mod 2 ^ 64"
    using ge by (rule le_mod_geq)
  also have "\<dots> = n * 10 + d - 2 ^ 64"
    using lt by (rule mod_less)
  finally have "(n * 10 + d) mod 2 ^ 64 < n * 10"
    using ge assms(2) by simp
  with assms(3) show False
    by (simp only: m1 simp_thms)
qed

lemma ParseUint_loop_None:
  "ParseUint_loop n s = (u, None) \<Longrightarrow>
   list_all (\<lambda>c. 48 \<le> (of_char c :: nat) \<and> (of_char c :: nat) \<le> 57) s \<and>
   u = decimal_from n s \<and> (s \<noteq> [] \<longrightarrow> u < 2 ^ 64)"
proof (induction s arbitrary: n)
  case Nil
  then show ?case by (simp add: decimal_from_Nil)
next
  case (Cons c cs)
  let ?d = "(of_char c :: nat) - 48"
  let ?n' = "(n * 10) mod 2 ^ 64"
  let ?n1 = "(?n' + ?d) mod 2 ^ 64"
  have dig: "48 \<le> (of_char c :: nat) \<and> (of_char c :: nat) \<le> 57"
  proof (rule ccontr)
    assume "\<not> (48 \<le> (of_char c :: nat) \<and> (of_char c :: nat) \<le> 57)"
    then have "ParseUint_loop n (c # cs) = (0, Some ErrSyntax)"
      by (simp only: ParseUint_loop.simps simp_thms if_True)
    with Cons.prems show False
      by simp
  qed
  then have d: "48 \<le> (of_char c :: nat)" "(of_char c :: nat) \<le> 57"
    by simp_all
  then have d9: "?d \<le> 9"
    by linarith
  have cut: "\<not> n \<ge> maxUint64 div 10 + 1"
  proof
    assume "n \<ge> maxUint64 div 10 + 1"
    then have "ParseUint_loop n (c # cs) = (maxUint64, Some ErrRange)"
      by (simp only: ParseUint_loop.simps Let_def d simp_thms if_True if_False)
    with Cons.prems show False
      by simp
  qed
  have ok: "\<not> (?n1 < ?n' \<or> ?n1 > maxUint64)"
  proof
    assume "?n1 < ?n' \<or> ?n1 > maxUint64"
    then have "ParseUint_loop n (c # cs) = (maxUint64, Some ErrRange)"
      using cut by (simp only: ParseUint_loop.simps Let_def d simp_thms if_True if_False)
    with Cons.prems show False
      by simp
  qed
  have n1: "n * 10 + ?d < 2 ^ 64"
    by (rule uint64_step [OF cut d9 ok])
  then have m1: "(n * 10) mod 2 ^ 64 = n * 10" and m2: "(n * 10 + ?d) mod 2 ^ 64 = n * 10 + ?d"
    by simp_all
  have "ParseUint_loop n (c # cs) = ParseUint_loop ?n1 cs"
    using cut ok by (simp only: ParseUint_loop.simps Let_def d simp_thms if_True if_False)
  then have rest: "ParseUint_loop (n * 10 + ?d) cs = (u, None)"
    using Cons.prems by (simp only: m1 m2)
  note ih = Cons.IH [OF rest]
  have "u < 2 ^ 64"
  proof (cases cs)
    case Nil
    with ih n1 show ?thesis by (simp add: decimal_from_Nil)
  next
    case (Cons a as)
    with ih show ?thesis by simp
  qed
  with ih d show ?case
    by (simp add: decimal_from_Cons)
qed

lemma ParseUint_None:
  assumes "ParseUint s = (u, None)"
  shows "is_decimal s \<and> u = decimal s \<and> u < 2 ^ 64"
proof -
  from assms have ne: "s \<noteq> []"
    by (auto simp add: ParseUint_def split: if_splits)
  with assms have "ParseUint_loop 0 s = (u, None)"
    by (simp add: ParseUint_def)
  from ParseUint_loop_None [OF this] ne show ?thesis
    by (simp add: is_decimal_def decimal_def)
qed

lemma ParseUint_decimal:
  assumes "is_decimal s" and "decimal s < 2 ^ 64"
  shows "ParseUint s = (decimal s, None)"
  using assms
  by (simp add: ParseUint_def is_decimal_def decimal_def ParseUint_loop_decimal)

lemma ParseUint_loop_ErrRange:
  "ParseUint_loop n s = (u, Some ErrRange) \<Longrightarrow> u = maxUint64"
proof (induction s arbitrary: n)
  case Nil
  then show ?case by simp
next
  case (Cons c cs)
  let ?d = "(of_char c :: nat) - 48"
  let ?n' = "(n * 10) mod 2 ^ 64"
  let ?n1 = "(?n' + ?d) mod 2 ^ 64"
  show ?case
  proof (cases "48 \<le> (of_char c :: nat) \<and> (of_char c :: nat) \<le> 57")
    case False
    then have "ParseUint_loop n (c # cs) = (0, Some ErrSyntax)"
      by (simp only: ParseUint_loop.simps simp_thms if_True)
    with Cons.prems show ?thesis by simp
  next
    case dig: True
    show ?thesis
    proof (cases "n \<ge> maxUint64 div 10 + 1 \<or> ?n1 < ?n' \<or> ?n1 > maxUint64")
      case True
      then have "ParseUint_loop n (c # cs) = (maxUint64, Some ErrRange)"
        using dig
        by (auto simp only: ParseUint_loop.simps Let_def simp_thms if_True if_False if_cancel)
      with Cons.prems show ?thesis by simp
    next
      case False
      then have "ParseUint_loop n (c # cs) = ParseUint_loop ?n1 cs"
        using dig by (simp add: Let_def)
      with Cons.prems have "ParseUint_loop ?n1 cs = (u, Some ErrRange)"
        by simp
      then show ?thesis by (rule Cons.IH)
    qed
  qed
qed

lemma ParseInt_None:
  assumes "ParseInt s = (i, None)"
  shows "signed_decimal s \<and> i = signed_value s \<and> - (2 ^ 63) \<le> i \<and> i < 2 ^ 63"
proof -
  from assms have ne: "s \<noteq> []"
    by (auto simp add: ParseInt_def split: if_splits)
  let ?s' = "if hd s = CHR ''+'' \<or> hd s = CHR ''-'' then tl s else s"
  have st: "strip_sign s = ?s'"
    using ne by (simp add: strip_sign_def)
  obtain un err where pu: "ParseUint ?s' = (un, err)"
    by (cases "ParseUint ?s'")
  have pi: "ParseInt s =
      (if err \<noteq> None \<and> err \<noteq> Some ErrRange then (0, err)
       else if \<not> hd s = CHR ''-'' \<and> un \<ge> 2 ^ 63 then (int (2 ^ 63) - 1, Some ErrRange)
       else if hd s = CHR ''-'' \<and> un > 2 ^ 63 then (- int (2 ^ 63), Some ErrRange)
       else (if hd s = CHR ''-'' then - int un else int un, None))"
    using ne pu by (simp add: ParseInt_def intSize_def Let_def)
  have en: "err = None"
  proof (cases err)
    case None
    then show ?thesis .
  next
    case (Some e)
    show ?thesis
    proof (cases e)
      case ErrSyntax
      with Some pi assms show ?thesis by simp
    next
      case ErrRange
      with Some pu have "un = maxUint64"
        by (auto simp add: ParseUint_def dest: ParseUint_loop_ErrRange split: if_splits)
      then have "un > 2 ^ 63"
        by (simp add: maxUint64_def)
      with pi assms show ?thesis by (simp split: if_splits)
    qed
  qed
  with pu have "is_decimal ?s'" and un: "un = decimal ?s'"
    using ParseUint_None [of ?s' un] by simp_all
  then have sd: "signed_decimal s"
    by (simp only: signed_decimal_def st)
  have sv: "signed_value s = (if hd s = CHR ''-'' then - int un else int un)"
    using ne by (simp only: signed_value_def st un simp_thms)
  from pi en assms have i: "i = (if hd s = CHR ''-'' then - int un else int un)"
    and r: "\<not> (\<not> hd s = CHR ''-'' \<and> un \<ge> 2 ^ 63)" "\<not> (hd s = CHR ''-'' \<and> un > 2 ^ 63)"
    by (auto split: if_splits)
  from r i have "- (2 ^ 63) \<le> i \<and> i < 2 ^ 63"
    by (cases "hd s = CHR ''-''") auto
  with sd sv i show ?thesis by simp
qed

lemma Atoi_None:
  assumes "snd (Atoi s) = None"
  shows "signed_decimal s \<and> fst (Atoi s) = signed_value s \<and>
         - (2 ^ 63) \<le> signed_value s \<and> signed_value s < 2 ^ 63"
proof (cases "0 < length s \<and> length s < 19")
  case False
  then have a: "Atoi s =
      (case ParseInt s of (i64, None) \<Rightarrow> (i64, None)
       | (i64, Some e) \<Rightarrow> (i64, Some \<lparr>Func = fnAtoi, Num = s, Err = e\<rparr>))"
    by (cases "s = []") (simp_all add: Atoi_def intSize_def Let_def)
  obtain i e where p: "ParseInt s = (i, e)"
    by (cases "ParseInt s")
  from a p assms have "e = None"
    by (cases e) simp_all
  with p have "ParseInt s = (i, None)"
    by simp
  from ParseInt_None [OF this] a p \<open>e = None\<close> show ?thesis
    by simp
next
  case True
  then have ne: "s \<noteq> []"
    by auto
  let ?s1 = "if hd s = CHR ''-'' \<or> hd s = CHR ''+'' then tl s else s"
  have st: "strip_sign s = ?s1"
    using ne by (auto simp add: strip_sign_def)
  have a: "Atoi s =
      (if (hd s = CHR ''-'' \<or> hd s = CHR ''+'') \<and> length ?s1 < 1
       then (0, Some (syntaxError fnAtoi s))
       else (case Atoi_fast_loop 0 ?s1 of
               None \<Rightarrow> (0, Some (syntaxError fnAtoi s))
             | Some n \<Rightarrow> (if hd s = CHR ''-'' then - n else n, None)))"
    using True by (simp add: Atoi_def intSize_def Let_def)
  from a assms have l: "\<not> ((hd s = CHR ''-'' \<or> hd s = CHR ''+'') \<and> length ?s1 < 1)"
    by (auto split: if_splits)
  with ne have ne1: "?s1 \<noteq> []"
    by (auto split: if_splits)
  from a assms l obtain n where f: "Atoi_fast_loop 0 ?s1 = Some n"
    by (cases "Atoi_fast_loop 0 ?s1") (simp_all split: if_splits)
  from Atoi_fast_loop_Some [of 0 ?s1 n] f
  have ds: "list_all (\<lambda>c. 48 \<le> (of_char c :: nat) \<and> (of_char c :: nat) \<le> 57) ?s1"
    and n: "n = int (decimal ?s1)"
    by (simp_all add: decimal_def)
  from ds ne1 have sd: "signed_decimal s"
    by (simp only: signed_decimal_def st is_decimal_def simp_thms)
  have v: "fst (Atoi s) = signed_value s"
    using a l f n ne by (simp only: signed_value_def st) simp
  have "length ?s1 \<le> 18"
    using True by (auto split: if_splits)
  then have "(10 :: nat) ^ length ?s1 \<le> 10 ^ 18"
    by (intro power_increasing) simp_all
  moreover have "decimal ?s1 < 1 * 10 ^ length ?s1"
    using decimal_from_bound [OF ds, of 0] by (simp add: decimal_def)
  ultimately have b: "decimal ?s1 < 2 ^ 63"
    by simp
  have "- (2 ^ 63) \<le> signed_value s \<and> signed_value s < 2 ^ 63"
    using b by (simp only: signed_value_def st) (simp split: if_splits)
  with sd v show ?thesis by simp
qed

lemma Atoi_signed_decimal:
  assumes "signed_decimal s" and "- (2 ^ 63) \<le> signed_value s" and "signed_value s < 2 ^ 63"
  shows "Atoi s = (signed_value s, None)"
proof -
  from assms(1) have ne: "s \<noteq> []"
    by (auto simp add: signed_decimal_def is_decimal_def strip_sign_def)
  let ?s1 = "if hd s = CHR ''-'' \<or> hd s = CHR ''+'' then tl s else s"
  have st: "strip_sign s = ?s1"
    using ne by (auto simp add: strip_sign_def)
  from assms(1) have ne1: "?s1 \<noteq> []"
    and ds: "list_all (\<lambda>c. 48 \<le> (of_char c :: nat) \<and> (of_char c :: nat) \<le> 57) ?s1"
    unfolding signed_decimal_def st is_decimal_def by simp_all
  have sv: "signed_value s = (if hd s = CHR ''-'' then - int (decimal ?s1) else int (decimal ?s1))"
    using ne by (simp only: signed_value_def st simp_thms)
  show ?thesis
  proof (cases "length s < 19")
    case True
    have f: "Atoi_fast_loop 0 ?s1 = Some (int (decimal ?s1))"
      using Atoi_fast_loop_decimal [OF ds, of 0] by (simp add: decimal_def)
    have l: "\<not> length ?s1 < 1"
      using ne1 by (simp add: less_Suc0)
    have "Atoi s = (if hd s = CHR ''-'' then - int (decimal ?s1) else int (decimal ?s1), None)"
      using True ne l f by (simp add: Atoi_def intSize_def Let_def)
    then show ?thesis
      by (simp only: sv)
  next
    case False
    from assms(2,3) have b: "decimal ?s1 \<le> 2 ^ 63"
      and b1: "hd s \<noteq> CHR ''-'' \<Longrightarrow> decimal ?s1 < 2 ^ 63"
      unfolding sv by (auto split: if_splits)
    then have "decimal ?s1 < 2 ^ 64"
      by simp
    then have pu: "ParseUint ?s1 = (decimal ?s1, None)"
      using ne1 ds by (intro ParseUint_decimal) (simp_all add: is_decimal_def)
    have s1: "(if hd s = CHR ''+'' \<or> hd s = CHR ''-'' then tl s else s) = ?s1"
      by auto
    have "ParseInt s =
        (if hd s = CHR ''-'' then - int (decimal ?s1) else int (decimal ?s1), None)"
      using ne b b1 by (auto simp add: ParseInt_def intSize_def Let_def s1 pu)
    then show ?thesis
      using False by (simp add: Atoi_def intSize_def sv)
  qed
qed

lemma Atoi_error_fields:
  assumes "snd (Atoi s) = Some w"
  shows "Func w = ''Atoi'' \<and> Num w = s"
proof (cases "0 < length s \<and> length s < 19")
  case True
  with assms show ?thesis
    by (auto simp add: Atoi_def intSize_def Let_def syntaxError_def fnAtoi_def
        split: if_splits option.splits)
next
  case False
  then have "Atoi s =
      (case ParseInt s of (i64, None) \<Rightarrow> (i64, None)
       | (i64, Some e) \<Rightarrow> (i64, Some \<lparr>Func = fnAtoi, Num = s, Err = e\<rparr>))"
    by (cases "s = []") (simp_all add: Atoi_def intSize_def Let_def)
  with assms show ?thesis
    by (auto simp add: fnAtoi_def split: prod.splits option.splits)
qed

text \<open>With a valid mode, no later stage returns one of the two mode errors.\<close>

lemma not_a_valid_network_neq:
  assumes "last t \<noteq> CHR ''k''"
  shows "nw @ '' is not a valid network'' \<noteq> t"
proof
  assume "nw @ '' is not a valid network'' = t"
  then have "last (nw @ '' is not a valid network'') = last t"
    by simp
  with assms show False
    by simp
qed

lemma Load_no_mode_error:
  assumes "Getenv env ModeEnv \<in> {''ONLINE'', ''OFFLINE''}"
  shows "snd (LoadConfiguration K env) \<noteq> Some (errorString ''MODE must be populated'')"
    and "snd (LoadConfiguration K env) \<noteq>
         Some (errorString (Getenv env ModeEnv @ '' is not a valid mode''))"
proof -
  have "snd (LoadConfiguration K env) \<noteq> Some (errorString ''MODE must be populated'') \<and>
    snd (LoadConfiguration K env) \<noteq>
      Some (errorString (Getenv env ModeEnv @ '' is not a valid mode''))"
  proof (cases env rule: Load_cases)
    case mode_empty
    with assms show ?thesis by simp
  next
    case mode_invalid
    with assms show ?thesis by simp
  next
    case network_empty
    with assms show ?thesis by (auto simp add: Load_network_empty)
  next
    case network_invalid
    have "Getenv env NetworkEnv @ '' is not a valid network'' \<noteq> ''MODE must be populated''"
      by (rule not_a_valid_network_neq) simp
    moreover have "Getenv env NetworkEnv @ '' is not a valid network'' \<noteq>
        Getenv env ModeEnv @ '' is not a valid mode''"
      by (rule not_a_valid_network_neq) simp
    ultimately show ?thesis
      using network_invalid by (simp add: Load_network_invalid)
  next
    case (skip_invalid b e)
    then show ?thesis by (simp add: Load_skip_invalid [where b = b and e = e])
  next
    case port_empty
    with assms show ?thesis by (auto simp add: Load_port_empty)
  next
    case (port_invalid n err)
    with assms show ?thesis
      by (cases err)
        (auto simp add: Load_port_invalid [where n = n and err = err] Errorf_w_def)
  next
    case (success n)
    then show ?thesis by (simp add: Load_success [where n = n])
  qed
  then show "snd (LoadConfiguration K env) \<noteq> Some (errorString ''MODE must be populated'')"
    and "snd (LoadConfiguration K env) \<noteq>
         Some (errorString (Getenv env ModeEnv @ '' is not a valid mode''))"
    by simp_all
qed

subsection \<open>The node URL cannot fail\<close>

lemma Getenv_upd_GoQuai:
  "Getenv (env(GoQuaiEnv \<mapsto> u)) ModeEnv = Getenv env ModeEnv"
  "Getenv (env(GoQuaiEnv \<mapsto> u)) NetworkEnv = Getenv env NetworkEnv"
  "Getenv (env(GoQuaiEnv \<mapsto> u)) SkipGoQuaiAdminEnv = Getenv env SkipGoQuaiAdminEnv"
  "Getenv (env(GoQuaiEnv \<mapsto> u)) PortEnv = Getenv env PortEnv"
  by (simp_all add: Getenv_def env_defs)

lemma Load_GoQuai_no_failure:
  "snd (LoadConfiguration K (env(GoQuaiEnv \<mapsto> u))) = snd (LoadConfiguration K env)"
proof (cases env rule: Load_cases)
  case mode_empty
  then show ?thesis by (simp add: Load_mode_empty Getenv_upd_GoQuai)
next
  case mode_invalid
  then show ?thesis by (simp add: Load_mode_invalid Getenv_upd_GoQuai)
next
  case network_empty
  then show ?thesis by (simp add: Load_network_empty Getenv_upd_GoQuai)
next
  case network_invalid
  then show ?thesis by (simp add: Load_network_invalid Getenv_upd_GoQuai)
next
  case (skip_invalid b e)
  then show ?thesis
    by (simp add: Load_skip_invalid [where b = b and e = e] Getenv_upd_GoQuai)
next
  case port_empty
  then show ?thesis by (simp add: Load_port_empty Getenv_upd_GoQuai)
next
  case (port_invalid n err)
  then show ?thesis
    by (simp add: Load_port_invalid [where n = n and err = err] Getenv_upd_GoQuai)
next
  case (success n)
  then show ?thesis
    by (simp add: Load_success [where n = n] Getenv_upd_GoQuai)
qed

section \<open>The claims\<close>

subsection \<open>The static table of the networks\<close>

text \<open>
  C1, as the claim states it, fails: a valid mode, a valid network and a port that
  parses to a positive number are not enough for the load to succeed, since the
  admin-skip flag is checked too. Here the three conditions hold and the load
  fails on \<^verbatim>\<open>SKIP_GO_QUAI_ADMIN=maybe\<close>.
\<close>

theorem C1_counterexample:
  "Getenv (env_mainnet(''SKIP_GO_QUAI_ADMIN'' \<mapsto> ''maybe'')) ModeEnv = ''ONLINE'' \<and>
   Getenv (env_mainnet(''SKIP_GO_QUAI_ADMIN'' \<mapsto> ''maybe'')) NetworkEnv = ''MAINNET'' \<and>
   Atoi (Getenv (env_mainnet(''SKIP_GO_QUAI_ADMIN'' \<mapsto> ''maybe'')) PortEnv) = (1000, None) \<and>
   LoadConfiguration sample_Statics (env_mainnet(''SKIP_GO_QUAI_ADMIN'' \<mapsto> ''maybe'')) =
     (None, Some (wrapError \<lparr>Func = ''ParseBool'', Num = ''maybe'', Err = ErrSyntax\<rparr>
        '': unable to parse SKIP_GO_QUAI_ADMIN maybe''))"
proof -
  let ?env = "env_mainnet(''SKIP_GO_QUAI_ADMIN'' \<mapsto> ''maybe'')"
  have g: "Getenv ?env ModeEnv = ''ONLINE''" "Getenv ?env NetworkEnv = ''MAINNET''"
    "Getenv ?env PortEnv = ''1000''" "Getenv ?env SkipGoQuaiAdminEnv = ''maybe''"
    by (simp_all add: Getenv_def env_mainnet_def env_defs)
  have p: "ParseBool ''maybe'' = (False, Some (syntaxError ''ParseBool'' ''maybe''))"
    by (simp add: ParseBool_def)
  have "LoadConfiguration sample_Statics ?env =
     (None, Some (wrapError (syntaxError ''ParseBool'' ''maybe'')
        ('': unable to parse SKIP_GO_QUAI_ADMIN '' @ ''maybe'')))"
    using Load_skip_invalid [of ?env False "syntaxError ''ParseBool'' ''maybe''" sample_Statics]
    by (simp add: g p)
  with g show ?thesis
    by (simp add: syntaxError_def Atoi_1000)
qed

text \<open>
  C1, amended. For every environment where \<^verbatim>\<open>MODE\<close> is \<^verbatim>\<open>ONLINE\<close> or
  \<^verbatim>\<open>OFFLINE\<close>, \<^verbatim>\<open>NETWORK\<close> is one of \<^verbatim>\<open>MAINNET\<close>, \<^verbatim>\<open>ORCHARD\<close>, \<^verbatim>\<open>LOCAL\<close>,
  \<^verbatim>\<open>SKIP_GO_QUAI_ADMIN\<close> is empty or one of the twelve tokens of
  \<^verbatim>\<open>strconv.ParseBool\<close>, and \<^verbatim>\<open>PORT\<close> is parsed by \<^verbatim>\<open>strconv.Atoi\<close> to a
  strictly positive integer \<open>n\<close>, \<^verbatim>\<open>LoadConfiguration\<close> succeeds and the
  \<open>Params\<close>, \<open>GenesisBlockIdentifier\<close> and \<open>GoQuaiArguments\<close> of the returned
  configuration are those of the selected network in the static table. LOCAL has
  the nil genesis identifier. MAINNET and ORCHARD have the identifiers the package
  \<^verbatim>\<open>ethereum\<close> declares; when these are as the specification describes them, they
  are not nil and the identifier of each of the two networks differs from that of
  the other.
\<close>

theorem C1_table_entry:
  assumes "Getenv env ModeEnv \<in> {''ONLINE'', ''OFFLINE''}"
    and "Getenv env NetworkEnv \<in> {''MAINNET'', ''ORCHARD'', ''LOCAL''}"
    and "Getenv env SkipGoQuaiAdminEnv \<in>
           {[], ''1'', ''t'', ''T'', ''true'', ''TRUE'', ''True'',
            ''0'', ''f'', ''F'', ''false'', ''FALSE'', ''False''}"
    and "Atoi (Getenv env PortEnv) = (n, None)"
    and "0 < n"
  shows
   "\<exists>c. LoadConfiguration K env = (Some c, None) \<and>
      (Getenv env NetworkEnv = ''MAINNET'' \<longrightarrow>
         Params c = params_ProgpowColosseumChainConfig K \<and>
         GenesisBlockIdentifier c = ethereum_MainnetGenesisBlockIdentifier K \<and>
         GoQuaiArguments c = ethereum_MainnetGoQuaiArguments K) \<and>
      (Getenv env NetworkEnv = ''ORCHARD'' \<longrightarrow>
         Params c = params_ProgpowOrchardChainConfig K \<and>
         GenesisBlockIdentifier c = ethereum_OrchardGenesisBlockIdentifier K \<and>
         GoQuaiArguments c = ethereum_OrchardGoQuaiArguments K) \<and>
      (Getenv env NetworkEnv = ''LOCAL'' \<longrightarrow>
         Params c = params_ProgpowLocalChainConfig K \<and>
         GenesisBlockIdentifier c = None \<and>
         GoQuaiArguments c = ethereum_LocalGoQuaiArguments K) \<and>
      (genesis_identifiers_as_specified K \<longrightarrow>
         (Getenv env NetworkEnv = ''MAINNET'' \<longrightarrow>
            GenesisBlockIdentifier c \<noteq> None \<and>
            GenesisBlockIdentifier c \<noteq> ethereum_OrchardGenesisBlockIdentifier K) \<and>
         (Getenv env NetworkEnv = ''ORCHARD'' \<longrightarrow>
            GenesisBlockIdentifier c \<noteq> None \<and>
            GenesisBlockIdentifier c \<noteq> ethereum_MainnetGenesisBlockIdentifier K))"
proof -
  from assms(3) have sk: "Getenv env SkipGoQuaiAdminEnv = [] \<or>
      snd (ParseBool (Getenv env SkipGoQuaiAdminEnv)) = None"
    unfolding ParseBool_ok_iff by blast
  show ?thesis
    unfolding Load_success [OF assms(1,2) sk assms(4,5)]
    by (auto simp add: genesis_identifiers_as_specified_def)
qed

theorem C1_table_entry_witness:
  "genesis_identifiers_as_specified sample_Statics \<and>
   (\<exists>c. LoadConfiguration sample_Statics env_mainnet = (Some c, None) \<and>
        Params c = Some 1 \<and>
        GenesisBlockIdentifier c = Some \<lparr>Index = 0, Hash = ''0xaa''\<rparr> \<and>
        GoQuaiArguments c = ''--colosseum'') \<and>
   (\<exists>c. LoadConfiguration sample_Statics
          [''MODE'' \<mapsto> ''OFFLINE'', ''NETWORK'' \<mapsto> ''LOCAL'', ''PORT'' \<mapsto> ''1000'',
           ''SKIP_GO_QUAI_ADMIN'' \<mapsto> ''TRUE''] = (Some c, None) \<and>
        Params c = Some 3 \<and>
        GenesisBlockIdentifier c = None \<and>
        GoQuaiArguments c = ''--local'')"
proof -
  let ?env = "[''MODE'' \<mapsto> ''OFFLINE'', ''NETWORK'' \<mapsto> ''LOCAL'', ''PORT'' \<mapsto> ''1000'',
           ''SKIP_GO_QUAI_ADMIN'' \<mapsto> ''TRUE'']"
  have g: "Getenv ?env ModeEnv = ''OFFLINE''" "Getenv ?env NetworkEnv = ''LOCAL''"
    "Getenv ?env PortEnv = ''1000''" "Getenv ?env SkipGoQuaiAdminEnv = ''TRUE''"
    by (simp_all add: Getenv_def env_defs)
  have s: "genesis_identifiers_as_specified sample_Statics"
    by (simp add: genesis_identifiers_as_specified_def sample_Statics_simps)
  have 1: "\<exists>c. LoadConfiguration sample_Statics env_mainnet = (Some c, None) \<and>
        Params c = Some 1 \<and>
        GenesisBlockIdentifier c = Some \<lparr>Index = 0, Hash = ''0xaa''\<rparr> \<and>
        GoQuaiArguments c = ''--colosseum''"
    using C1_table_entry [of env_mainnet 1000 sample_Statics]
    by (auto simp add: Getenv_env_mainnet Atoi_1000 sample_Statics_simps)
  have 2: "\<exists>c. LoadConfiguration sample_Statics ?env = (Some c, None) \<and>
        Params c = Some 3 \<and>
        GenesisBlockIdentifier c = None \<and>
        GoQuaiArguments c = ''--local''"
    using C1_table_entry [of ?env 1000 sample_Statics]
    by (auto simp add: g Atoi_1000 sample_Statics_simps)
  from s 1 2 show ?thesis by blast
qed

subsection \<open>The order of validation\<close>

text \<open>
  C2. \<^verbatim>\<open>LoadConfiguration\<close> validates in the order mode, network, node-URL
  override (which cannot fail), admin-skip flag, port, and returns the one error of
  the first field that fails, whatever the later fields hold:
  \<^item> a missing or invalid mode gives the mode error;
  \<^item> with a valid mode, a missing or invalid network gives the network error;
  \<^item> with both valid, an admin-skip flag that is set and not a boolean gives the
    error of that field;
  \<^item> with these three passed, an empty port gives the error naming \<^verbatim>\<open>PORT\<close>, and
    a port that does not parse to a positive number the port parse error.
  In particular, with no variable set the error names \<^verbatim>\<open>MODE\<close>; with only a valid
  \<^verbatim>\<open>MODE\<close> set it names \<^verbatim>\<open>NETWORK\<close>; with only a valid \<^verbatim>\<open>MODE\<close> and a valid
  \<^verbatim>\<open>NETWORK\<close> set it names \<^verbatim>\<open>PORT\<close>.
\<close>

theorem C2_validation_order:
  "(Getenv env ModeEnv \<notin> {''ONLINE'', ''OFFLINE''} \<longrightarrow>
      LoadConfiguration K env =
        (None, Some (if Getenv env ModeEnv = [] then errorString ''MODE must be populated''
                     else errorString (Getenv env ModeEnv @ '' is not a valid mode'')))) \<and>
   (Getenv env ModeEnv \<in> {''ONLINE'', ''OFFLINE''} \<and>
    Getenv env NetworkEnv \<notin> {''MAINNET'', ''ORCHARD'', ''LOCAL''} \<longrightarrow>
      LoadConfiguration K env =
        (None, Some (if Getenv env NetworkEnv = []
                     then errorString ''NETWORK must be populated''
                     else errorString (Getenv env NetworkEnv @ '' is not a valid network'')))) \<and>
   (Getenv env ModeEnv \<in> {''ONLINE'', ''OFFLINE''} \<and>
    Getenv env NetworkEnv \<in> {''MAINNET'', ''ORCHARD'', ''LOCAL''} \<and>
    Getenv env SkipGoQuaiAdminEnv \<noteq> [] \<and>
    snd (ParseBool (Getenv env SkipGoQuaiAdminEnv)) \<noteq> None \<longrightarrow>
      LoadConfiguration K env =
        (None, Some (Errorf_w (snd (ParseBool (Getenv env SkipGoQuaiAdminEnv)))
           ('': unable to parse SKIP_GO_QUAI_ADMIN '' @ Getenv env SkipGoQuaiAdminEnv)))) \<and>
   (Getenv env ModeEnv \<in> {''ONLINE'', ''OFFLINE''} \<and>
    Getenv env NetworkEnv \<in> {''MAINNET'', ''ORCHARD'', ''LOCAL''} \<and>
    (Getenv env SkipGoQuaiAdminEnv = [] \<or>
     snd (ParseBool (Getenv env SkipGoQuaiAdminEnv)) = None) \<and>
    Getenv env PortEnv = [] \<longrightarrow>
      LoadConfiguration K env = (None, Some (errorString ''PORT must be populated''))) \<and>
   (Getenv env ModeEnv \<in> {''ONLINE'', ''OFFLINE''} \<and>
    Getenv env NetworkEnv \<in> {''MAINNET'', ''ORCHARD'', ''LOCAL''} \<and>
    (Getenv env SkipGoQuaiAdminEnv = [] \<or>
     snd (ParseBool (Getenv env SkipGoQuaiAdminEnv)) = None) \<and>
    Getenv env PortEnv \<noteq> [] \<and>
    (snd (Atoi (Getenv env PortEnv)) \<noteq> None \<or> fst (Atoi (Getenv env PortEnv)) \<le> 0) \<longrightarrow>
      LoadConfiguration K env =
        (None, Some (Errorf_w (snd (Atoi (Getenv env PortEnv)))
           ('': unable to parse port '' @ Getenv env PortEnv)))) \<and>
   LoadConfiguration K Map.empty = (None, Some (errorString ''MODE must be populated'')) \<and>
   (m \<in> {''ONLINE'', ''OFFLINE''} \<longrightarrow>
      LoadConfiguration K [''MODE'' \<mapsto> m] =
        (None, Some (errorString ''NETWORK must be populated''))) \<and>
   (m \<in> {''ONLINE'', ''OFFLINE''} \<and> nw \<in> {''MAINNET'', ''ORCHARD'', ''LOCAL''} \<longrightarrow>
      LoadConfiguration K [''MODE'' \<mapsto> m, ''NETWORK'' \<mapsto> nw] =
        (None, Some (errorString ''PORT must be populated'')))"
proof (intro conjI impI)
  assume "Getenv env ModeEnv \<notin> {''ONLINE'', ''OFFLINE''}"
  then show "LoadConfiguration K env =
        (None, Some (if Getenv env ModeEnv = [] then errorString ''MODE must be populated''
                     else errorString (Getenv env ModeEnv @ '' is not a valid mode'')))"
    by (simp add: Load_mode_empty Load_mode_invalid)
next
  assume "Getenv env ModeEnv \<in> {''ONLINE'', ''OFFLINE''} \<and>
    Getenv env NetworkEnv \<notin> {''MAINNET'', ''ORCHARD'', ''LOCAL''}"
  then show "LoadConfiguration K env =
        (None, Some (if Getenv env NetworkEnv = []
                     then errorString ''NETWORK must be populated''
                     else errorString (Getenv env NetworkEnv @ '' is not a valid network'')))"
    by (simp add: Load_network_empty Load_network_invalid)
next
  assume a: "Getenv env ModeEnv \<in> {''ONLINE'', ''OFFLINE''} \<and>
    Getenv env NetworkEnv \<in> {''MAINNET'', ''ORCHARD'', ''LOCAL''} \<and>
    Getenv env SkipGoQuaiAdminEnv \<noteq> [] \<and>
    snd (ParseBool (Getenv env SkipGoQuaiAdminEnv)) \<noteq> None"
  then obtain b e where "ParseBool (Getenv env SkipGoQuaiAdminEnv) = (b, Some e)"
    by (cases "ParseBool (Getenv env SkipGoQuaiAdminEnv)") auto
  with a show "LoadConfiguration K env =
        (None, Some (Errorf_w (snd (ParseBool (Getenv env SkipGoQuaiAdminEnv)))
           ('': unable to parse SKIP_GO_QUAI_ADMIN '' @ Getenv env SkipGoQuaiAdminEnv)))"
    by (simp add: Load_skip_invalid [where b = b and e = e] Errorf_w_def)
next
  assume "Getenv env ModeEnv \<in> {''ONLINE'', ''OFFLINE''} \<and>
    Getenv env NetworkEnv \<in> {''MAINNET'', ''ORCHARD'', ''LOCAL''} \<and>
    (Getenv env SkipGoQuaiAdminEnv = [] \<or>
     snd (ParseBool (Getenv env SkipGoQuaiAdminEnv)) = None) \<and>
    Getenv env PortEnv = []"
  then show "LoadConfiguration K env = (None, Some (errorString ''PORT must be populated''))"
    by (intro Load_port_empty) simp_all
next
  assume a: "Getenv env ModeEnv \<in> {''ONLINE'', ''OFFLINE''} \<and>
    Getenv env NetworkEnv \<in> {''MAINNET'', ''ORCHARD'', ''LOCAL''} \<and>
    (Getenv env SkipGoQuaiAdminEnv = [] \<or>
     snd (ParseBool (Getenv env SkipGoQuaiAdminEnv)) = None) \<and>
    Getenv env PortEnv \<noteq> [] \<and>
    (snd (Atoi (Getenv env PortEnv)) \<noteq> None \<or> fst (Atoi (Getenv env PortEnv)) \<le> 0)"
  have at: "Atoi (Getenv env PortEnv) =
      (fst (Atoi (Getenv env PortEnv)), snd (Atoi (Getenv env PortEnv)))"
    by simp
  from a show "LoadConfiguration K env =
        (None, Some (Errorf_w (snd (Atoi (Getenv env PortEnv)))
           ('': unable to parse port '' @ Getenv env PortEnv)))"
    by (intro Load_port_invalid [OF _ _ _ _ at]) simp_all
next
  show "LoadConfiguration K Map.empty = (None, Some (errorString ''MODE must be populated''))"
    by (simp add: Load_mode_empty Getenv_def)
next
  assume "m \<in> {''ONLINE'', ''OFFLINE''}"
  then show "LoadConfiguration K [''MODE'' \<mapsto> m] =
        (None, Some (errorString ''NETWORK must be populated''))"
    by (intro Load_network_empty) (simp_all add: Getenv_def env_defs)
next
  assume "m \<in> {''ONLINE'', ''OFFLINE''} \<and> nw \<in> {''MAINNET'', ''ORCHARD'', ''LOCAL''}"
  then show "LoadConfiguration K [''MODE'' \<mapsto> m, ''NETWORK'' \<mapsto> nw] =
        (None, Some (errorString ''PORT must be populated''))"
    by (intro Load_port_empty) (simp_all add: Getenv_def env_defs)
qed

theorem C2_validation_order_witness:
  "LoadConfiguration sample_Statics
     [''MODE'' \<mapsto> ''bad mode'', ''NETWORK'' \<mapsto> ''bad network'', ''PORT'' \<mapsto> ''bad port'',
      ''SKIP_GO_QUAI_ADMIN'' \<mapsto> ''maybe''] =
     (None, Some (errorString ''bad mode is not a valid mode'')) \<and>
   LoadConfiguration sample_Statics
     [''MODE'' \<mapsto> ''OFFLINE'', ''NETWORK'' \<mapsto> ''bad network'', ''PORT'' \<mapsto> ''bad port'',
      ''SKIP_GO_QUAI_ADMIN'' \<mapsto> ''maybe''] =
     (None, Some (errorString ''bad network is not a valid network'')) \<and>
   LoadConfiguration sample_Statics
     [''MODE'' \<mapsto> ''OFFLINE'', ''NETWORK'' \<mapsto> ''ORCHARD'', ''PORT'' \<mapsto> ''bad port'',
      ''SKIP_GO_QUAI_ADMIN'' \<mapsto> ''maybe''] =
     (None, Some (wrapError (syntaxError ''ParseBool'' ''maybe'')
        '': unable to parse SKIP_GO_QUAI_ADMIN maybe'')) \<and>
   LoadConfiguration sample_Statics
     [''MODE'' \<mapsto> ''OFFLINE'', ''NETWORK'' \<mapsto> ''ORCHARD'', ''PORT'' \<mapsto> ''bad port''] =
     (None, Some (wrapError (syntaxError ''Atoi'' ''bad port'')
        '': unable to parse port bad port'')) \<and>
   LoadConfiguration sample_Statics [''MODE'' \<mapsto> ''ONLINE''] =
     (None, Some (errorString ''NETWORK must be populated'')) \<and>
   LoadConfiguration sample_Statics [''MODE'' \<mapsto> ''ONLINE'', ''NETWORK'' \<mapsto> ''MAINNET''] =
     (None, Some (errorString ''PORT must be populated''))"
proof -
  have a: "Atoi ''bad port'' = (0, Some (syntaxError ''Atoi'' ''bad port''))"
    by (simp add: Atoi_def intSize_def fnAtoi_def)
  show ?thesis
    using
      C2_validation_order [of "[''MODE'' \<mapsto> ''bad mode'', ''NETWORK'' \<mapsto> ''bad network'',
        ''PORT'' \<mapsto> ''bad port'', ''SKIP_GO_QUAI_ADMIN'' \<mapsto> ''maybe'']"
        sample_Statics "''ONLINE''" "''MAINNET''"]
      C2_validation_order [of "[''MODE'' \<mapsto> ''OFFLINE'', ''NETWORK'' \<mapsto> ''bad network'',
        ''PORT'' \<mapsto> ''bad port'', ''SKIP_GO_QUAI_ADMIN'' \<mapsto> ''maybe'']"
        sample_Statics "''ONLINE''" "''MAINNET''"]
      C2_validation_order [of "[''MODE'' \<mapsto> ''OFFLINE'', ''NETWORK'' \<mapsto> ''ORCHARD'',
        ''PORT'' \<mapsto> ''bad port'', ''SKIP_GO_QUAI_ADMIN'' \<mapsto> ''maybe'']"
        sample_Statics "''ONLINE''" "''MAINNET''"]
      C2_validation_order [of "[''MODE'' \<mapsto> ''OFFLINE'', ''NETWORK'' \<mapsto> ''ORCHARD'',
        ''PORT'' \<mapsto> ''bad port'']"
        sample_Statics "''ONLINE''" "''MAINNET''"]
    by (simp add: Getenv_def env_defs ParseBool_def Errorf_w_def a)
qed

subsection \<open>The port\<close>

text \<open>
  C3, as the claim states it, fails: \<^verbatim>\<open>9223372036854775808\<close> is a base-10 integer
  and strictly positive, so the claim promises a configuration with that port; but
  the number does not fit the 64-bit \<^verbatim>\<open>int\<close> of the field, \<^verbatim>\<open>strconv.Atoi\<close>
  reports a range error and the load fails, in an environment that is valid
  otherwise.
\<close>

theorem C3_counterexample:
  "signed_decimal ''9223372036854775808'' \<and>
   signed_value ''9223372036854775808'' = 9223372036854775808 \<and>
   Getenv (env_mainnet(''PORT'' \<mapsto> ''9223372036854775808'')) ModeEnv = ''ONLINE'' \<and>
   Getenv (env_mainnet(''PORT'' \<mapsto> ''9223372036854775808'')) NetworkEnv = ''MAINNET'' \<and>
   Getenv (env_mainnet(''PORT'' \<mapsto> ''9223372036854775808'')) SkipGoQuaiAdminEnv = [] \<and>
   Getenv (env_mainnet(''PORT'' \<mapsto> ''9223372036854775808'')) PortEnv =
     ''9223372036854775808'' \<and>
   LoadConfiguration sample_Statics (env_mainnet(''PORT'' \<mapsto> ''9223372036854775808'')) =
     (None, Some (wrapError \<lparr>Func = ''Atoi'', Num = ''9223372036854775808'', Err = ErrRange\<rparr>
        '': unable to parse port 9223372036854775808''))"
proof -
  let ?env = "env_mainnet(''PORT'' \<mapsto> ''9223372036854775808'')"
  have d: "signed_decimal ''9223372036854775808''"
    by (simp add: signed_decimal_def strip_sign_def is_decimal_def)
  have v: "signed_value ''9223372036854775808'' = 9223372036854775808"
    by (simp add: signed_value_def strip_sign_def decimal_def decimal_from_def)
  have g: "Getenv ?env ModeEnv = ''ONLINE''" "Getenv ?env NetworkEnv = ''MAINNET''"
    "Getenv ?env SkipGoQuaiAdminEnv = []" "Getenv ?env PortEnv = ''9223372036854775808''"
    by (simp_all add: Getenv_def env_mainnet_def env_defs)
  have r: "Atoi ''9223372036854775808'' =
      (9223372036854775807, Some (rangeError ''Atoi'' ''9223372036854775808''))"
    by (simp add: Atoi_def ParseInt_def ParseUint_def maxUint64_def intSize_def fnAtoi_def
        rangeError_def Let_def)
  have "LoadConfiguration sample_Statics ?env =
     (None, Some (Errorf_w (Some (rangeError ''Atoi'' ''9223372036854775808''))
        ('': unable to parse port '' @ ''9223372036854775808'')))"
    using Load_port_invalid [where env = ?env and K = sample_Statics
        and n = 9223372036854775807
        and err = "Some (rangeError ''Atoi'' ''9223372036854775808'')"]
    by (simp add: g r)
  with d v g show ?thesis
    by (simp add: Errorf_w_def rangeError_def)
qed

text \<open>
  C3, amended. In an environment whose mode, network and admin-skip flag pass their
  checks (the port is validated last), for every value of \<^verbatim>\<open>PORT\<close>:
  \<^item> if it is empty, the result is the error \<^verbatim>\<open>PORT must be populated\<close>;
  \<^item> if it is not empty and is not a signed decimal numeral (an optional \<^verbatim>\<open>+\<close> or
    \<^verbatim>\<open>-\<close> followed by one or more digits), or denotes a number outside the
    64-bit range \<open>- 2 ^ 63 .. 2 ^ 63 - 1\<close> of \<^verbatim>\<open>int\<close>, the result is an error
    that wraps the error of \<^verbatim>\<open>strconv.Atoi\<close> for that text and whose message
    contains \<^verbatim>\<open>unable to parse port\<close> followed by the raw text;
  \<^item> if it is a signed decimal numeral that denotes zero or a negative number of
    that range, the result is the error built by
    \<^verbatim>\<open>fmt.Errorf("%w: unable to parse port %s", nil, portValue)\<close>, whose message
    again ends with \<^verbatim>\<open>unable to parse port\<close> and the raw text;
  \<^item> otherwise, that is for a signed decimal numeral denoting a number between 1
    and \<open>2 ^ 63 - 1\<close>, a configuration is returned and its port is that number.
\<close>

theorem C3_port:
  assumes "Getenv env ModeEnv \<in> {''ONLINE'', ''OFFLINE''}"
    and "Getenv env NetworkEnv \<in> {''MAINNET'', ''ORCHARD'', ''LOCAL''}"
    and "Getenv env SkipGoQuaiAdminEnv = [] \<or>
         snd (ParseBool (Getenv env SkipGoQuaiAdminEnv)) = None"
  shows
   "(Getenv env PortEnv = [] \<longrightarrow>
       LoadConfiguration K env = (None, Some (errorString ''PORT must be populated''))) \<and>
    (Getenv env PortEnv \<noteq> [] \<and>
     (\<not> signed_decimal (Getenv env PortEnv) \<or>
      signed_value (Getenv env PortEnv) < - (2 ^ 63) \<or>
      2 ^ 63 \<le> signed_value (Getenv env PortEnv)) \<longrightarrow>
       (\<exists>w. LoadConfiguration K env =
               (None, Some (wrapError w ('': unable to parse port '' @ Getenv env PortEnv))) \<and>
            Func w = ''Atoi'' \<and> Num w = Getenv env PortEnv \<and>
            (\<exists>pre. Error quote (wrapError w ('': unable to parse port '' @ Getenv env PortEnv)) =
                    pre @ ''unable to parse port '' @ Getenv env PortEnv))) \<and>
    (signed_decimal (Getenv env PortEnv) \<and>
     - (2 ^ 63) \<le> signed_value (Getenv env PortEnv) \<and>
     signed_value (Getenv env PortEnv) \<le> 0 \<longrightarrow>
       LoadConfiguration K env =
         (None, Some (errorString
            (''%!w(<nil>): unable to parse port '' @ Getenv env PortEnv)))) \<and>
    (signed_decimal (Getenv env PortEnv) \<and>
     0 < signed_value (Getenv env PortEnv) \<and> signed_value (Getenv env PortEnv) < 2 ^ 63 \<longrightarrow>
       (\<exists>c. LoadConfiguration K env = (Some c, None) \<and>
            Port c = signed_value (Getenv env PortEnv) \<and> 0 < Port c))"
proof (intro conjI impI)
  assume "Getenv env PortEnv = []"
  with assms show "LoadConfiguration K env =
      (None, Some (errorString ''PORT must be populated''))"
    by (intro Load_port_empty)
next
  let ?p = "Getenv env PortEnv"
  assume a: "?p \<noteq> [] \<and>
     (\<not> signed_decimal ?p \<or> signed_value ?p < - (2 ^ 63) \<or> 2 ^ 63 \<le> signed_value ?p)"
  have "snd (Atoi ?p) \<noteq> None"
  proof
    assume "snd (Atoi ?p) = None"
    from Atoi_None [OF this] a show False
      by auto
  qed
  then obtain n w where at: "Atoi ?p = (n, Some w)"
    by (cases "Atoi ?p") auto
  then have w: "Func w = ''Atoi''" "Num w = ?p"
    using Atoi_error_fields [of ?p w] by simp_all
  have "LoadConfiguration K env =
      (None, Some (Errorf_w (Some w) ('': unable to parse port '' @ ?p)))"
    using a by (intro Load_port_invalid [OF assms _ at]) simp_all
  then have l: "LoadConfiguration K env =
      (None, Some (wrapError w ('': unable to parse port '' @ ?p)))"
    by (simp add: Errorf_w_def)
  have "\<exists>pre. Error quote (Errorf_w (Some w) ('': unable to parse port '' @ ?p)) =
      pre @ ''unable to parse port '' @ ?p"
    by (rule Error_Errorf_w_port)
  then have m: "\<exists>pre. Error quote (wrapError w ('': unable to parse port '' @ ?p)) =
      pre @ ''unable to parse port '' @ ?p"
    by (simp add: Errorf_w_def)
  from l w m show "\<exists>w. LoadConfiguration K env =
               (None, Some (wrapError w ('': unable to parse port '' @ ?p))) \<and>
            Func w = ''Atoi'' \<and> Num w = ?p \<and>
            (\<exists>pre. Error quote (wrapError w ('': unable to parse port '' @ ?p)) =
                    pre @ ''unable to parse port '' @ ?p)"
    by blast
next
  let ?p = "Getenv env PortEnv"
  assume a: "signed_decimal ?p \<and> - (2 ^ 63) \<le> signed_value ?p \<and> signed_value ?p \<le> 0"
  then have at: "Atoi ?p = (signed_value ?p, None)"
    by (intro Atoi_signed_decimal) simp_all
  from a have ne: "?p \<noteq> []"
    by (auto simp add: signed_decimal_def is_decimal_def strip_sign_def)
  have "LoadConfiguration K env =
      (None, Some (Errorf_w None ('': unable to parse port '' @ ?p)))"
    using a by (intro Load_port_invalid [OF assms ne at]) simp
  then show "LoadConfiguration K env =
      (None, Some (errorString (''%!w(<nil>): unable to parse port '' @ ?p)))"
    by (simp add: Errorf_w_def)
next
  let ?p = "Getenv env PortEnv"
  assume a: "signed_decimal ?p \<and> 0 < signed_value ?p \<and> signed_value ?p < 2 ^ 63"
  then have at: "Atoi ?p = (signed_value ?p, None)"
    by (intro Atoi_signed_decimal) simp_all
  from a have pos: "0 < signed_value ?p"
    by simp
  show "\<exists>c. LoadConfiguration K env = (Some c, None) \<and>
            Port c = signed_value ?p \<and> 0 < Port c"
    unfolding Load_success [OF assms at pos] using pos by simp
qed

theorem C3_port_witness:
  "LoadConfiguration sample_Statics [''MODE'' \<mapsto> ''ONLINE'', ''NETWORK'' \<mapsto> ''MAINNET''] =
     (None, Some (errorString ''PORT must be populated'')) \<and>
   (\<exists>w. LoadConfiguration sample_Statics
          [''MODE'' \<mapsto> ''ONLINE'', ''NETWORK'' \<mapsto> ''MAINNET'', ''PORT'' \<mapsto> ''80abc''] =
          (None, Some (wrapError w '': unable to parse port 80abc'')) \<and>
        Func w = ''Atoi'' \<and> Num w = ''80abc'') \<and>
   LoadConfiguration sample_Statics
     [''MODE'' \<mapsto> ''ONLINE'', ''NETWORK'' \<mapsto> ''MAINNET'', ''PORT'' \<mapsto> ''0''] =
     (None, Some (errorString ''%!w(<nil>): unable to parse port 0'')) \<and>
   LoadConfiguration sample_Statics
     [''MODE'' \<mapsto> ''ONLINE'', ''NETWORK'' \<mapsto> ''MAINNET'', ''PORT'' \<mapsto> ''-5''] =
     (None, Some (errorString ''%!w(<nil>): unable to parse port -5'')) \<and>
   (\<exists>c. LoadConfiguration sample_Statics env_mainnet = (Some c, None) \<and> Port c = 1000)"
proof -
  have sd: "\<not> signed_decimal ''80abc''" "signed_decimal ''0''" "signed_decimal ''-5''"
    "signed_decimal ''1000''"
    by (simp_all add: signed_decimal_def strip_sign_def is_decimal_def)
  have sv: "signed_value ''0'' = 0" "signed_value ''-5'' = - 5" "signed_value ''1000'' = 1000"
    by (simp_all add: signed_value_def strip_sign_def decimal_def decimal_from_def)
  have e: "LoadConfiguration sample_Statics
      [''MODE'' \<mapsto> ''ONLINE'', ''NETWORK'' \<mapsto> ''MAINNET''] =
     (None, Some (errorString ''PORT must be populated''))"
    using C3_port [of "[''MODE'' \<mapsto> ''ONLINE'', ''NETWORK'' \<mapsto> ''MAINNET'']" sample_Statics id]
    by (simp add: Getenv_def env_defs)
  have b: "\<exists>w. LoadConfiguration sample_Statics
          [''MODE'' \<mapsto> ''ONLINE'', ''NETWORK'' \<mapsto> ''MAINNET'', ''PORT'' \<mapsto> ''80abc''] =
          (None, Some (wrapError w '': unable to parse port 80abc'')) \<and>
        Func w = ''Atoi'' \<and> Num w = ''80abc''"
    using C3_port [of "[''MODE'' \<mapsto> ''ONLINE'', ''NETWORK'' \<mapsto> ''MAINNET'',
      ''PORT'' \<mapsto> ''80abc'']" sample_Statics id]
    by (auto simp add: Getenv_def env_defs sd)
  have z: "LoadConfiguration sample_Statics
      [''MODE'' \<mapsto> ''ONLINE'', ''NETWORK'' \<mapsto> ''MAINNET'', ''PORT'' \<mapsto> ''0''] =
     (None, Some (errorString ''%!w(<nil>): unable to parse port 0''))"
    using C3_port [of "[''MODE'' \<mapsto> ''ONLINE'', ''NETWORK'' \<mapsto> ''MAINNET'',
      ''PORT'' \<mapsto> ''0'']" sample_Statics id]
    by (simp add: Getenv_def env_defs sd sv)
  have m: "LoadConfiguration sample_Statics
      [''MODE'' \<mapsto> ''ONLINE'', ''NETWORK'' \<mapsto> ''MAINNET'', ''PORT'' \<mapsto> ''-5''] =
     (None, Some (errorString ''%!w(<nil>): unable to parse port -5''))"
    using C3_port [of "[''MODE'' \<mapsto> ''ONLINE'', ''NETWORK'' \<mapsto> ''MAINNET'',
      ''PORT'' \<mapsto> ''-5'']" sample_Statics id]
    by (simp add: Getenv_def env_defs sd sv)
  have s: "\<exists>c. LoadConfiguration sample_Statics env_mainnet = (Some c, None) \<and> Port c = 1000"
    using C3_port [of env_mainnet sample_Statics id]
    by (auto simp add: Getenv_env_mainnet sd sv)
  from e b z m s show ?thesis by blast
qed

subsection \<open>The admin-skip flag\<close>

text \<open>
  C4, as the claim states it, fails: \<^verbatim>\<open>tRUE\<close> is \<^verbatim>\<open>true\<close> up to the case of its
  letters, yet \<^verbatim>\<open>strconv.ParseBool\<close> rejects it and the load fails, in an
  environment that is valid otherwise.
\<close>

theorem C4_counterexample:
  "spec_bool_token ''tRUE'' = Some True \<and>
   Getenv (env_mainnet(''SKIP_GO_QUAI_ADMIN'' \<mapsto> ''tRUE'')) ModeEnv = ''ONLINE'' \<and>
   Getenv (env_mainnet(''SKIP_GO_QUAI_ADMIN'' \<mapsto> ''tRUE'')) NetworkEnv = ''MAINNET'' \<and>
   Getenv (env_mainnet(''SKIP_GO_QUAI_ADMIN'' \<mapsto> ''tRUE'')) PortEnv = ''1000'' \<and>
   LoadConfiguration sample_Statics (env_mainnet(''SKIP_GO_QUAI_ADMIN'' \<mapsto> ''tRUE'')) =
     (None, Some (wrapError \<lparr>Func = ''ParseBool'', Num = ''tRUE'', Err = ErrSyntax\<rparr>
        '': unable to parse SKIP_GO_QUAI_ADMIN tRUE''))"
proof -
  let ?env = "env_mainnet(''SKIP_GO_QUAI_ADMIN'' \<mapsto> ''tRUE'')"
  have s: "spec_bool_token ''tRUE'' = Some True"
    by (simp add: spec_bool_token_def spec_fold_case_def char_of_def bit_Suc_0_iff)
  have g: "Getenv ?env ModeEnv = ''ONLINE''" "Getenv ?env NetworkEnv = ''MAINNET''"
    "Getenv ?env PortEnv = ''1000''" "Getenv ?env SkipGoQuaiAdminEnv = ''tRUE''"
    by (simp_all add: Getenv_def env_mainnet_def env_defs)
  have p: "ParseBool ''tRUE'' = (False, Some (syntaxError ''ParseBool'' ''tRUE''))"
    by (simp add: ParseBool_def)
  have "LoadConfiguration sample_Statics ?env =
     (None, Some (wrapError (syntaxError ''ParseBool'' ''tRUE'')
        ('': unable to parse SKIP_GO_QUAI_ADMIN '' @ ''tRUE'')))"
    using Load_skip_invalid [of ?env False "syntaxError ''ParseBool'' ''tRUE''" sample_Statics]
    by (simp add: g p)
  with s g show ?thesis
    by (simp add: syntaxError_def)
qed

text \<open>
  C4, amended. In an environment whose mode and network pass their checks, the
  variable \<^verbatim>\<open>SKIP_GO_QUAI_ADMIN\<close> is accepted when it is empty or one of the twelve
  tokens of \<^verbatim>\<open>strconv.ParseBool\<close>, compared exactly: \<^verbatim>\<open>1 t T true TRUE True\<close>
  (true) and \<^verbatim>\<open>0 f F false FALSE False\<close> (false).
  \<^item> Every other value makes the load fail with the parse error of this field,
    which wraps the syntax error of \<^verbatim>\<open>ParseBool\<close> and carries the raw text.
  \<^item> Whenever a configuration is returned, the value was empty or one of the twelve
    tokens, and \<open>SkipGoQuaiAdmin\<close> is true iff it was one of the six true tokens; so
    it is false when the variable is empty.
  \<^item> An accepted value does not make the load fail: with a port that parses to a
    positive number a configuration is returned.
\<close>

theorem C4_skip_admin:
  assumes "Getenv env ModeEnv \<in> {''ONLINE'', ''OFFLINE''}"
    and "Getenv env NetworkEnv \<in> {''MAINNET'', ''ORCHARD'', ''LOCAL''}"
  shows
   "(Getenv env SkipGoQuaiAdminEnv \<notin>
       {[], ''1'', ''t'', ''T'', ''true'', ''TRUE'', ''True'',
        ''0'', ''f'', ''F'', ''false'', ''FALSE'', ''False''} \<longrightarrow>
       LoadConfiguration K env =
         (None, Some (wrapError (syntaxError ''ParseBool'' (Getenv env SkipGoQuaiAdminEnv))
            ('': unable to parse SKIP_GO_QUAI_ADMIN '' @ Getenv env SkipGoQuaiAdminEnv)))) \<and>
    (\<forall>c. LoadConfiguration K env = (Some c, None) \<longrightarrow>
       Getenv env SkipGoQuaiAdminEnv \<in>
         {[], ''1'', ''t'', ''T'', ''true'', ''TRUE'', ''True'',
          ''0'', ''f'', ''F'', ''false'', ''FALSE'', ''False''} \<and>
       (SkipGoQuaiAdmin c \<longleftrightarrow>
          Getenv env SkipGoQuaiAdminEnv \<in> {''1'', ''t'', ''T'', ''true'', ''TRUE'', ''True''})) \<and>
    (Getenv env SkipGoQuaiAdminEnv \<in>
       {[], ''1'', ''t'', ''T'', ''true'', ''TRUE'', ''True'',
        ''0'', ''f'', ''F'', ''false'', ''FALSE'', ''False''} \<and>
     snd (Atoi (Getenv env PortEnv)) = None \<and> 0 < fst (Atoi (Getenv env PortEnv)) \<longrightarrow>
       (\<exists>c. LoadConfiguration K env = (Some c, None)))"
proof (intro conjI impI allI)
  assume a: "Getenv env SkipGoQuaiAdminEnv \<notin>
       {[], ''1'', ''t'', ''T'', ''true'', ''TRUE'', ''True'',
        ''0'', ''f'', ''F'', ''false'', ''FALSE'', ''False''}"
  then have ne: "Getenv env SkipGoQuaiAdminEnv \<noteq> []"
    by simp
  from a have "snd (ParseBool (Getenv env SkipGoQuaiAdminEnv)) \<noteq> None"
    unfolding ParseBool_ok_iff by simp
  then have "ParseBool (Getenv env SkipGoQuaiAdminEnv) =
      (False, Some (syntaxError ''ParseBool'' (Getenv env SkipGoQuaiAdminEnv)))"
    by (rule ParseBool_reject)
  then show "LoadConfiguration K env =
         (None, Some (wrapError (syntaxError ''ParseBool'' (Getenv env SkipGoQuaiAdminEnv))
            ('': unable to parse SKIP_GO_QUAI_ADMIN '' @ Getenv env SkipGoQuaiAdminEnv)))"
    by (rule Load_skip_invalid [OF assms ne])
next
  fix c
  assume ok: "LoadConfiguration K env = (Some c, None)"
  from ok obtain n where s: "Getenv env ModeEnv \<in> {''ONLINE'', ''OFFLINE''}"
    "Getenv env NetworkEnv \<in> {''MAINNET'', ''ORCHARD'', ''LOCAL''}"
    "Getenv env SkipGoQuaiAdminEnv = [] \<or>
     snd (ParseBool (Getenv env SkipGoQuaiAdminEnv)) = None"
    "Atoi (Getenv env PortEnv) = (n, None)" "0 < n"
    by (rule Load_SomeE)
  have sk: "(Getenv env SkipGoQuaiAdminEnv = [] \<or>
      snd (ParseBool (Getenv env SkipGoQuaiAdminEnv)) = None) \<and>
    SkipGoQuaiAdmin c =
      (Getenv env SkipGoQuaiAdminEnv \<noteq> [] \<and>
       fst (ParseBool (Getenv env SkipGoQuaiAdminEnv)))"
    using ok s(3) unfolding Load_success [OF s] by auto
  from sk show "Getenv env SkipGoQuaiAdminEnv \<in>
         {[], ''1'', ''t'', ''T'', ''true'', ''TRUE'', ''True'',
          ''0'', ''f'', ''F'', ''false'', ''FALSE'', ''False''}"
    unfolding ParseBool_ok_iff by blast
  from sk show "SkipGoQuaiAdmin c \<longleftrightarrow>
      Getenv env SkipGoQuaiAdminEnv \<in> {''1'', ''t'', ''T'', ''true'', ''TRUE'', ''True''}"
    unfolding ParseBool_fst_iff by auto
next
  assume a: "Getenv env SkipGoQuaiAdminEnv \<in>
       {[], ''1'', ''t'', ''T'', ''true'', ''TRUE'', ''True'',
        ''0'', ''f'', ''F'', ''false'', ''FALSE'', ''False''} \<and>
     snd (Atoi (Getenv env PortEnv)) = None \<and> 0 < fst (Atoi (Getenv env PortEnv))"
  then have sk: "Getenv env SkipGoQuaiAdminEnv = [] \<or>
      snd (ParseBool (Getenv env SkipGoQuaiAdminEnv)) = None"
    unfolding ParseBool_ok_iff by blast
  from a have at: "Atoi (Getenv env PortEnv) = (fst (Atoi (Getenv env PortEnv)), None)"
    by (simp add: prod_eq_iff)
  from a have pos: "0 < fst (Atoi (Getenv env PortEnv))"
    by simp
  show "\<exists>c. LoadConfiguration K env = (Some c, None)"
    unfolding Load_success [OF assms sk at pos] by simp
qed

theorem C4_skip_admin_witness:
  "(\<exists>c. LoadConfiguration sample_Statics env_mainnet = (Some c, None) \<and>
        \<not> SkipGoQuaiAdmin c) \<and>
   (\<exists>c. LoadConfiguration sample_Statics (env_mainnet(''SKIP_GO_QUAI_ADMIN'' \<mapsto> ''TRUE'')) =
          (Some c, None) \<and> SkipGoQuaiAdmin c) \<and>
   (\<exists>c. LoadConfiguration sample_Statics (env_mainnet(''SKIP_GO_QUAI_ADMIN'' \<mapsto> ''false'')) =
          (Some c, None) \<and> \<not> SkipGoQuaiAdmin c) \<and>
   LoadConfiguration sample_Statics (env_mainnet(''SKIP_GO_QUAI_ADMIN'' \<mapsto> ''maybe'')) =
     (None, Some (wrapError (syntaxError ''ParseBool'' ''maybe'')
        '': unable to parse SKIP_GO_QUAI_ADMIN maybe''))"
proof -
  have g: "Getenv (env_mainnet(''SKIP_GO_QUAI_ADMIN'' \<mapsto> v)) ModeEnv = ''ONLINE''"
    "Getenv (env_mainnet(''SKIP_GO_QUAI_ADMIN'' \<mapsto> v)) NetworkEnv = ''MAINNET''"
    "Getenv (env_mainnet(''SKIP_GO_QUAI_ADMIN'' \<mapsto> v)) PortEnv = ''1000''"
    "Getenv (env_mainnet(''SKIP_GO_QUAI_ADMIN'' \<mapsto> v)) SkipGoQuaiAdminEnv = v" for v
    by (simp_all add: Getenv_def env_mainnet_def env_defs)
  have 1: "\<exists>c. LoadConfiguration sample_Statics env_mainnet = (Some c, None) \<and>
        \<not> SkipGoQuaiAdmin c"
    using C4_skip_admin [of env_mainnet sample_Statics]
    by (auto simp add: Getenv_env_mainnet Atoi_1000)
  have 2: "\<exists>c. LoadConfiguration sample_Statics
      (env_mainnet(''SKIP_GO_QUAI_ADMIN'' \<mapsto> ''TRUE'')) = (Some c, None) \<and> SkipGoQuaiAdmin c"
    using C4_skip_admin [of "env_mainnet(''SKIP_GO_QUAI_ADMIN'' \<mapsto> ''TRUE'')" sample_Statics]
    by (auto simp add: g Atoi_1000)
  have 3: "\<exists>c. LoadConfiguration sample_Statics
      (env_mainnet(''SKIP_GO_QUAI_ADMIN'' \<mapsto> ''false'')) = (Some c, None) \<and>
      \<not> SkipGoQuaiAdmin c"
    using C4_skip_admin [of "env_mainnet(''SKIP_GO_QUAI_ADMIN'' \<mapsto> ''false'')" sample_Statics]
    by (auto simp add: g Atoi_1000)
  have 4: "LoadConfiguration sample_Statics
      (env_mainnet(''SKIP_GO_QUAI_ADMIN'' \<mapsto> ''maybe'')) =
     (None, Some (wrapError (syntaxError ''ParseBool'' ''maybe'')
        '': unable to parse SKIP_GO_QUAI_ADMIN maybe''))"
    using C4_skip_admin [of "env_mainnet(''SKIP_GO_QUAI_ADMIN'' \<mapsto> ''maybe'')" sample_Statics]
    by (simp add: g)
  from 1 2 3 4 show ?thesis by blast
qed

subsection \<open>The mode\<close>

text \<open>
  C5. For every value of \<^verbatim>\<open>MODE\<close>: an empty value yields the error
  \<^verbatim>\<open>MODE must be populated\<close>; every other value that is neither \<^verbatim>\<open>ONLINE\<close>
  nor \<^verbatim>\<open>OFFLINE\<close> (the comparison is exact, so \<^verbatim>\<open>online\<close> is such a value)
  yields an error whose message is the raw value followed by
  \<^verbatim>\<open> is not a valid mode\<close>; and whenever a configuration is returned its mode is
  \<open>Online\<close> iff \<^verbatim>\<open>MODE\<close> is exactly \<^verbatim>\<open>ONLINE\<close> and \<open>Offline\<close> iff it is
  exactly \<^verbatim>\<open>OFFLINE\<close>, one of the two being the case. The values \<^verbatim>\<open>ONLINE\<close>
  and \<^verbatim>\<open>OFFLINE\<close> pass: with them the load never fails with either of the two
  mode errors, and when the later fields are valid (a known network, an admin-skip
  flag that is empty or one of the twelve boolean tokens, a port that is a signed
  decimal numeral denoting a number between 1 and \<open>2 ^ 63 - 1\<close>) a configuration
  is returned whose mode is the value of \<^verbatim>\<open>MODE\<close>.
\<close>

theorem C5_mode:
  "(Getenv env ModeEnv = [] \<longrightarrow>
      LoadConfiguration K env = (None, Some (errorString ''MODE must be populated''))) \<and>
   (Getenv env ModeEnv \<notin> {''ONLINE'', ''OFFLINE'', []} \<longrightarrow>
      (\<exists>e. LoadConfiguration K env = (None, Some e) \<and>
           Error quote e = Getenv env ModeEnv @ '' is not a valid mode'')) \<and>
   (\<forall>c. LoadConfiguration K env = (Some c, None) \<longrightarrow>
      (Mode c = Online \<longleftrightarrow> Getenv env ModeEnv = ''ONLINE'') \<and>
      (Mode c = Offline \<longleftrightarrow> Getenv env ModeEnv = ''OFFLINE'') \<and>
      (Mode c = Online \<or> Mode c = Offline)) \<and>
   (Getenv env ModeEnv \<in> {''ONLINE'', ''OFFLINE''} \<longrightarrow>
      snd (LoadConfiguration K env) \<noteq> Some (errorString ''MODE must be populated'') \<and>
      snd (LoadConfiguration K env) \<noteq>
        Some (errorString (Getenv env ModeEnv @ '' is not a valid mode''))) \<and>
   (Getenv env ModeEnv \<in> {''ONLINE'', ''OFFLINE''} \<and>
    Getenv env NetworkEnv \<in> {''MAINNET'', ''ORCHARD'', ''LOCAL''} \<and>
    Getenv env SkipGoQuaiAdminEnv \<in>
      {[], ''1'', ''t'', ''T'', ''true'', ''TRUE'', ''True'',
       ''0'', ''f'', ''F'', ''false'', ''FALSE'', ''False''} \<and>
    signed_decimal (Getenv env PortEnv) \<and>
    0 < signed_value (Getenv env PortEnv) \<and> signed_value (Getenv env PortEnv) < 2 ^ 63 \<longrightarrow>
      (\<exists>c. LoadConfiguration K env = (Some c, None) \<and> Mode c = Getenv env ModeEnv \<and>
           (Getenv env ModeEnv = ''ONLINE'' \<longrightarrow> Mode c = Online) \<and>
           (Getenv env ModeEnv = ''OFFLINE'' \<longrightarrow> Mode c = Offline)))"
proof (intro conjI impI allI)
  assume "Getenv env ModeEnv = []"
  then show "LoadConfiguration K env = (None, Some (errorString ''MODE must be populated''))"
    by (rule Load_mode_empty)
next
  assume "Getenv env ModeEnv \<notin> {''ONLINE'', ''OFFLINE'', []}"
  then show "\<exists>e. LoadConfiguration K env = (None, Some e) \<and>
           Error quote e = Getenv env ModeEnv @ '' is not a valid mode''"
    by (simp add: Load_mode_invalid)
next
  fix c
  assume ok: "LoadConfiguration K env = (Some c, None)"
  from ok obtain n where s: "Getenv env ModeEnv \<in> {''ONLINE'', ''OFFLINE''}"
    "Getenv env NetworkEnv \<in> {''MAINNET'', ''ORCHARD'', ''LOCAL''}"
    "Getenv env SkipGoQuaiAdminEnv = [] \<or>
     snd (ParseBool (Getenv env SkipGoQuaiAdminEnv)) = None"
    "Atoi (Getenv env PortEnv) = (n, None)" "0 < n"
    by (rule Load_SomeE)
  have "Mode c = Getenv env ModeEnv \<and> Getenv env ModeEnv \<in> {''ONLINE'', ''OFFLINE''}"
    using ok s(1) unfolding Load_success [OF s] by auto
  then show "Mode c = Online \<longleftrightarrow> Getenv env ModeEnv = ''ONLINE''"
    and "Mode c = Offline \<longleftrightarrow> Getenv env ModeEnv = ''OFFLINE''"
    and "Mode c = Online \<or> Mode c = Offline"
    by (auto simp add: names_defs)
next
  assume m: "Getenv env ModeEnv \<in> {''ONLINE'', ''OFFLINE''}"
  then show "snd (LoadConfiguration K env) \<noteq> Some (errorString ''MODE must be populated'')"
    by (rule Load_no_mode_error(1))
  from m show "snd (LoadConfiguration K env) \<noteq>
      Some (errorString (Getenv env ModeEnv @ '' is not a valid mode''))"
    by (rule Load_no_mode_error(2))
next
  let ?p = "Getenv env PortEnv"
  assume a: "Getenv env ModeEnv \<in> {''ONLINE'', ''OFFLINE''} \<and>
    Getenv env NetworkEnv \<in> {''MAINNET'', ''ORCHARD'', ''LOCAL''} \<and>
    Getenv env SkipGoQuaiAdminEnv \<in>
      {[], ''1'', ''t'', ''T'', ''true'', ''TRUE'', ''True'',
       ''0'', ''f'', ''F'', ''false'', ''FALSE'', ''False''} \<and>
    signed_decimal ?p \<and> 0 < signed_value ?p \<and> signed_value ?p < 2 ^ 63"
  then have m: "Getenv env ModeEnv \<in> {''ONLINE'', ''OFFLINE''}"
    and nw: "Getenv env NetworkEnv \<in> {''MAINNET'', ''ORCHARD'', ''LOCAL''}"
    and pos: "0 < signed_value ?p"
    by simp_all
  from a have sk: "Getenv env SkipGoQuaiAdminEnv = [] \<or>
      snd (ParseBool (Getenv env SkipGoQuaiAdminEnv)) = None"
    unfolding ParseBool_ok_iff by blast
  from a have at: "Atoi ?p = (signed_value ?p, None)"
    by (intro Atoi_signed_decimal) simp_all
  show "\<exists>c. LoadConfiguration K env = (Some c, None) \<and> Mode c = Getenv env ModeEnv \<and>
           (Getenv env ModeEnv = ''ONLINE'' \<longrightarrow> Mode c = Online) \<and>
           (Getenv env ModeEnv = ''OFFLINE'' \<longrightarrow> Mode c = Offline)"
    unfolding Load_success [OF m nw sk at pos] by (simp add: names_defs)
qed

theorem C5_mode_witness:
  "LoadConfiguration sample_Statics Map.empty =
     (None, Some (errorString ''MODE must be populated'')) \<and>
   (\<exists>e. LoadConfiguration sample_Statics [''MODE'' \<mapsto> ''online''] = (None, Some e) \<and>
        Error id e = ''online is not a valid mode'') \<and>
   (\<exists>c. LoadConfiguration sample_Statics env_mainnet = (Some c, None) \<and> Mode c = Online) \<and>
   (\<exists>c. LoadConfiguration sample_Statics (env_mainnet(''MODE'' \<mapsto> ''OFFLINE'')) =
          (Some c, None) \<and> Mode c = Offline) \<and>
   snd (LoadConfiguration sample_Statics [''MODE'' \<mapsto> ''OFFLINE'']) \<noteq>
     Some (errorString ''OFFLINE is not a valid mode'')"
proof -
  let ?off = "env_mainnet(''MODE'' \<mapsto> ''OFFLINE'')"
  have g1: "Getenv Map.empty ModeEnv = []"
    by (simp add: Getenv_def)
  have g2: "Getenv [''MODE'' \<mapsto> ''online''] ModeEnv = ''online''"
    by (simp add: Getenv_def env_defs)
  have g3: "Getenv [''MODE'' \<mapsto> ''OFFLINE''] ModeEnv = ''OFFLINE''"
    by (simp add: Getenv_def env_defs)
  have g4: "Getenv ?off ModeEnv = ''OFFLINE''" "Getenv ?off NetworkEnv = ''MAINNET''"
    "Getenv ?off SkipGoQuaiAdminEnv = []" "Getenv ?off PortEnv = ''1000''"
    by (simp_all add: Getenv_def env_mainnet_def env_defs)
  have sd: "signed_decimal ''1000''"
    by (simp add: signed_decimal_def strip_sign_def is_decimal_def)
  have sv: "signed_value ''1000'' = 1000"
    by (simp add: signed_value_def strip_sign_def decimal_def decimal_from_def)
  have 1: "LoadConfiguration sample_Statics Map.empty =
     (None, Some (errorString ''MODE must be populated''))"
    using C5_mode [of Map.empty sample_Statics id] by (simp add: g1)
  have 2: "\<exists>e. LoadConfiguration sample_Statics [''MODE'' \<mapsto> ''online''] = (None, Some e) \<and>
        Error id e = ''online is not a valid mode''"
    using C5_mode [of "[''MODE'' \<mapsto> ''online'']" sample_Statics id] by (simp add: g2)
  have 3: "\<exists>c. LoadConfiguration sample_Statics env_mainnet = (Some c, None) \<and> Mode c = Online"
    using C5_mode [of env_mainnet sample_Statics id]
    by (auto simp add: Getenv_env_mainnet sd sv)
  have 4: "\<exists>c. LoadConfiguration sample_Statics ?off = (Some c, None) \<and> Mode c = Offline"
    using C5_mode [of ?off sample_Statics id]
    by (auto simp add: g4 sd sv)
  have 5: "snd (LoadConfiguration sample_Statics [''MODE'' \<mapsto> ''OFFLINE'']) \<noteq>
     Some (errorString ''OFFLINE is not a valid mode'')"
    using C5_mode [of "[''MODE'' \<mapsto> ''OFFLINE'']" sample_Statics id] by (simp add: g3)
  from 1 2 3 4 5 show ?thesis by blast
qed

subsection \<open>The node URL\<close>

text \<open>
  C6. For every value of \<^verbatim>\<open>GOQUAI\<close>: on every successful load, if the value is
  not empty the node URL is that value, verbatim, and \<open>RemoteGoQuai\<close> is true; if it
  is empty the node URL is the default \<^verbatim>\<open>http://localhost:8545\<close> and
  \<open>RemoteGoQuai\<close> is false; so \<open>RemoteGoQuai\<close> is true iff \<^verbatim>\<open>GOQUAI\<close> was not
  empty. The variable has no failure mode: setting it to any text \<open>u\<close> changes
  neither whether the load fails nor the error it fails with.
\<close>

theorem C6_node_url:
  "(\<forall>c. LoadConfiguration K env = (Some c, None) \<longrightarrow>
      (Getenv env GoQuaiEnv \<noteq> [] \<longrightarrow>
         GoQuaiURL c = Getenv env GoQuaiEnv \<and> RemoteGoQuai c) \<and>
      (Getenv env GoQuaiEnv = [] \<longrightarrow>
         GoQuaiURL c = ''http://localhost:8545'' \<and> \<not> RemoteGoQuai c) \<and>
      (RemoteGoQuai c \<longleftrightarrow> Getenv env GoQuaiEnv \<noteq> [])) \<and>
   snd (LoadConfiguration K (env(GoQuaiEnv \<mapsto> u))) = snd (LoadConfiguration K env) \<and>
   DefaultGoQuaiURL = ''http://localhost:8545''"
proof (intro conjI allI impI)
  fix c
  assume ok: "LoadConfiguration K env = (Some c, None)"
  from ok obtain n where s: "Getenv env ModeEnv \<in> {''ONLINE'', ''OFFLINE''}"
    "Getenv env NetworkEnv \<in> {''MAINNET'', ''ORCHARD'', ''LOCAL''}"
    "Getenv env SkipGoQuaiAdminEnv = [] \<or>
     snd (ParseBool (Getenv env SkipGoQuaiAdminEnv)) = None"
    "Atoi (Getenv env PortEnv) = (n, None)" "0 < n"
    by (rule Load_SomeE)
  have "GoQuaiURL c =
      (if Getenv env GoQuaiEnv = [] then ''http://localhost:8545'' else Getenv env GoQuaiEnv) \<and>
    RemoteGoQuai c = (Getenv env GoQuaiEnv \<noteq> [])"
    using ok unfolding Load_success [OF s] by auto
  then show "Getenv env GoQuaiEnv \<noteq> [] \<Longrightarrow> GoQuaiURL c = Getenv env GoQuaiEnv"
    and "Getenv env GoQuaiEnv \<noteq> [] \<Longrightarrow> RemoteGoQuai c"
    and "Getenv env GoQuaiEnv = [] \<Longrightarrow> GoQuaiURL c = ''http://localhost:8545''"
    and "Getenv env GoQuaiEnv = [] \<Longrightarrow> \<not> RemoteGoQuai c"
    and "RemoteGoQuai c \<longleftrightarrow> Getenv env GoQuaiEnv \<noteq> []"
    by simp_all
next
  show "snd (LoadConfiguration K (env(GoQuaiEnv \<mapsto> u))) = snd (LoadConfiguration K env)"
    by (rule Load_GoQuai_no_failure)
next
  show "DefaultGoQuaiURL = ''http://localhost:8545''"
    by (simp add: DefaultGoQuaiURL_def)
qed

theorem C6_node_url_witness:
  "(\<exists>c. LoadConfiguration sample_Statics env_mainnet = (Some c, None) \<and>
        GoQuaiURL c = ''http://localhost:8545'' \<and> \<not> RemoteGoQuai c) \<and>
   (\<exists>c. LoadConfiguration sample_Statics (env_mainnet(''GOQUAI'' \<mapsto> ''http://blah'')) =
          (Some c, None) \<and>
        GoQuaiURL c = ''http://blah'' \<and> RemoteGoQuai c)"
proof -
  let ?env = "env_mainnet(''GOQUAI'' \<mapsto> ''http://blah'')"
  have g: "Getenv ?env GoQuaiEnv = ''http://blah''"
    by (simp add: Getenv_def env_defs)
  obtain c where c: "LoadConfiguration sample_Statics env_mainnet = (Some c, None)"
    by (simp add: Load_success [where n = 1000] Getenv_env_mainnet Atoi_1000)
  have "snd (LoadConfiguration sample_Statics ?env) = None"
    using C6_node_url [of sample_Statics env_mainnet "''http://blah''"] c
    by (simp add: env_defs)
  moreover have "fst (LoadConfiguration sample_Statics ?env) \<noteq> None"
    by (simp add: Load_success [where n = 1000] Getenv_upd_GoQuai [unfolded GoQuaiEnv_def]
        Getenv_env_mainnet Atoi_1000)
  ultimately obtain c' where c': "LoadConfiguration sample_Statics ?env = (Some c', None)"
    by (cases "LoadConfiguration sample_Statics ?env") auto
  show ?thesis
    using C6_node_url [of sample_Statics env_mainnet "''http://blah''"]
      C6_node_url [of sample_Statics ?env "''http://blah''"] c c' g
    by (simp add: Getenv_env_mainnet)
qed

subsection \<open>All or nothing\<close>

text \<open>
  C7. \<^verbatim>\<open>LoadConfiguration\<close> is all-or-nothing. For every environment (and every
  table of package-level values) it returns either an error and no configuration, or
  a configuration and no error: whenever the error is present the configuration is
  nil, whenever the configuration is present the error is nil, and one of the two is
  always present.
\<close>

theorem C7_all_or_nothing:
  "(snd (LoadConfiguration K env) \<noteq> None \<longrightarrow> fst (LoadConfiguration K env) = None) \<and>
   (fst (LoadConfiguration K env) \<noteq> None \<longrightarrow> snd (LoadConfiguration K env) = None) \<and>
   (fst (LoadConfiguration K env) \<noteq> None \<or> snd (LoadConfiguration K env) \<noteq> None)"
proof (cases env rule: Load_cases)
  case mode_empty
  then show ?thesis by (simp add: Load_mode_empty)
next
  case mode_invalid
  then show ?thesis by (simp add: Load_mode_invalid)
next
  case network_empty
  then show ?thesis by (simp add: Load_network_empty)
next
  case network_invalid
  then show ?thesis by (simp add: Load_network_invalid)
next
  case (skip_invalid b e)
  then show ?thesis by (simp add: Load_skip_invalid)
next
  case port_empty
  then show ?thesis by (simp add: Load_port_empty)
next
  case (port_invalid n err)
  then show ?thesis by (simp add: Load_port_invalid)
next
  case (success n)
  then show ?thesis by (simp add: Load_success)
qed

theorem C7_all_or_nothing_witness:
  "snd (LoadConfiguration sample_Statics Map.empty) =
     Some (errorString ''MODE must be populated'') \<and>
   fst (LoadConfiguration sample_Statics Map.empty) = None \<and>
   fst (LoadConfiguration sample_Statics env_mainnet) \<noteq> None \<and>
   snd (LoadConfiguration sample_Statics env_mainnet) = None"
proof -
  have e: "snd (LoadConfiguration sample_Statics Map.empty) =
      Some (errorString ''MODE must be populated'')"
    by (simp add: Load_mode_empty Getenv_def)
  have c: "fst (LoadConfiguration sample_Statics env_mainnet) \<noteq> None"
    by (simp add: Load_success [where n = 1000] Getenv_env_mainnet Atoi_1000)
  show ?thesis
    using e c C7_all_or_nothing [of sample_Statics Map.empty]
      C7_all_or_nothing [of sample_Statics env_mainnet]
    by simp
qed

subsection \<open>The network identifier\<close>

text \<open>
  C9. On every successful load the returned network identifier is present, its
  blockchain component is the one constant \<^verbatim>\<open>ethereum.Blockchain\<close> whatever the
  selected network, and only its network component varies:
  \<^verbatim>\<open>ethereum.MainnetNetwork\<close> for MAINNET, \<^verbatim>\<open>ethereum.OrchardNetwork\<close> for
  ORCHARD and \<^verbatim>\<open>ethereum.DevNetwork\<close> for LOCAL. The third component, the optional
  sub-network identifier, is nil for every network.
\<close>

theorem C9_blockchain_constant:
  assumes "LoadConfiguration K env = (Some c, None)"
  shows "\<exists>ni. Network c = Some ni \<and>
           NI_Blockchain ni = ethereum_Blockchain K \<and>
           Getenv env NetworkEnv \<in> {''MAINNET'', ''ORCHARD'', ''LOCAL''} \<and>
           NI_Network ni =
             (if Getenv env NetworkEnv = ''MAINNET'' then ethereum_MainnetNetwork K
              else if Getenv env NetworkEnv = ''ORCHARD'' then ethereum_OrchardNetwork K
              else ethereum_DevNetwork K) \<and>
           NI_SubNetworkIdentifier ni = None \<and>
           ni = \<lparr>NI_Blockchain = ethereum_Blockchain K,
                 NI_Network =
                   (if Getenv env NetworkEnv = ''MAINNET'' then ethereum_MainnetNetwork K
                    else if Getenv env NetworkEnv = ''ORCHARD'' then ethereum_OrchardNetwork K
                    else ethereum_DevNetwork K),
                 NI_SubNetworkIdentifier = None\<rparr>"
proof -
  from assms obtain n where s: "Getenv env ModeEnv \<in> {''ONLINE'', ''OFFLINE''}"
    "Getenv env NetworkEnv \<in> {''MAINNET'', ''ORCHARD'', ''LOCAL''}"
    "Getenv env SkipGoQuaiAdminEnv = [] \<or>
     snd (ParseBool (Getenv env SkipGoQuaiAdminEnv)) = None"
    "Atoi (Getenv env PortEnv) = (n, None)" "0 < n"
    by (rule Load_SomeE)
  show ?thesis
    using assms s(2) unfolding Load_success [OF s] by auto
qed

theorem C9_blockchain_constant_witness:
  "(\<exists>c. LoadConfiguration sample_Statics env_mainnet = (Some c, None) \<and>
     Network c = Some \<lparr>NI_Blockchain = ''Quai'', NI_Network = ''Mainnet'',
                       NI_SubNetworkIdentifier = None\<rparr>) \<and>
   (\<exists>c. LoadConfiguration sample_Statics (env_mainnet(''NETWORK'' \<mapsto> ''LOCAL'')) =
          (Some c, None) \<and>
     Network c = Some \<lparr>NI_Blockchain = ''Quai'', NI_Network = ''Dev'',
                       NI_SubNetworkIdentifier = None\<rparr>)"
proof -
  let ?loc = "env_mainnet(''NETWORK'' \<mapsto> ''LOCAL'')"
  have g: "Getenv ?loc ModeEnv = ''ONLINE''" "Getenv ?loc NetworkEnv = ''LOCAL''"
    "Getenv ?loc SkipGoQuaiAdminEnv = []" "Getenv ?loc PortEnv = ''1000''"
    by (simp_all add: Getenv_def env_mainnet_def env_defs)
  obtain c where c: "LoadConfiguration sample_Statics env_mainnet = (Some c, None)"
    by (simp add: Load_success [where n = 1000] Getenv_env_mainnet Atoi_1000)
  obtain c' where c': "LoadConfiguration sample_Statics ?loc = (Some c', None)"
    by (simp add: Load_success [where n = 1000] g Atoi_1000)
  have 1: "Network c = Some \<lparr>NI_Blockchain = ''Quai'', NI_Network = ''Mainnet'',
                       NI_SubNetworkIdentifier = None\<rparr>"
    using C9_blockchain_constant [OF c]
    by (auto simp add: Getenv_env_mainnet sample_Statics_simps)
  have 2: "Network c' = Some \<lparr>NI_Blockchain = ''Quai'', NI_Network = ''Dev'',
                       NI_SubNetworkIdentifier = None\<rparr>"
    using C9_blockchain_constant [OF c']
    by (auto simp add: g sample_Statics_simps)
  from c c' 1 2 show ?thesis by blast
qed

subsection \<open>The address helpers\<close>

text \<open>
  C10. For every address text and location: when \<^verbatim>\<open>ChecksumAddress\<close> reports
  failure the address it returns is the zero address; it reports success iff the
  mixed-case parse returns no error, and then returns the address of the parsed
  value; and \<^verbatim>\<open>MustChecksum\<close> returns an address \<open>x\<close> exactly when
  \<^verbatim>\<open>ChecksumAddress\<close> returns \<open>x\<close> with \<open>ok = true\<close> on the same inputs, and does
  not return (the process exits) exactly when \<^verbatim>\<open>ChecksumAddress\<close> reports failure.
\<close>

theorem C10_checksum:
  "(\<not> snd (ChecksumAddress parse address_of zero address location) \<longrightarrow>
      fst (ChecksumAddress parse address_of zero address location) = zero) \<and>
   (snd (ChecksumAddress parse address_of zero address location) \<longleftrightarrow>
      snd (parse address location) = None) \<and>
   (snd (ChecksumAddress parse address_of zero address location) \<longrightarrow>
      fst (ChecksumAddress parse address_of zero address location) =
        address_of (fst (parse address location))) \<and>
   (\<forall>x. MustChecksum parse address_of zero address location = Some x \<longleftrightarrow>
        ChecksumAddress parse address_of zero address location = (x, True)) \<and>
   (MustChecksum parse address_of zero address location = None \<longleftrightarrow>
      \<not> snd (ChecksumAddress parse address_of zero address location))"
  by (cases "parse address location")
     (auto simp add: ChecksumAddress_def MustChecksum_def split: option.splits)

theorem C10_checksum_witness:
  "ChecksumAddress (\<lambda>s l. if s = ''0xAb'' then ((s, l), None) else (([], l), Some ''invalid''))
     fst ''0x00'' ''0xAb'' (0 :: nat) = (''0xAb'', True) \<and>
   MustChecksum (\<lambda>s l. if s = ''0xAb'' then ((s, l), None) else (([], l), Some ''invalid''))
     fst ''0x00'' ''0xAb'' (0 :: nat) = Some ''0xAb'' \<and>
   ChecksumAddress (\<lambda>s l. if s = ''0xAb'' then ((s, l), None) else (([], l), Some ''invalid''))
     fst ''0x00'' ''zz'' (0 :: nat) = (''0x00'', False) \<and>
   MustChecksum (\<lambda>s l. if s = ''0xAb'' then ((s, l), None) else (([], l), Some ''invalid''))
     fst ''0x00'' ''zz'' (0 :: nat) = None"
  using
    C10_checksum [of "\<lambda>s l. if s = ''0xAb'' then ((s, l), None) else (([], l), Some ''invalid'')"
      fst "''0x00''" "''0xAb''" "0 :: nat"]
    C10_checksum [of "\<lambda>s l. if s = ''0xAb'' then ((s, l), None) else (([], l), Some ''invalid'')"
      fst "''0x00''" "''zz''" "0 :: nat"]
  by (simp add: prod_eq_iff)

end
